theory Spec2Isabelle
  imports Main "HOL-Library.AList"
begin

unbundle bit_operations_syntax

section \<open>The partial I/O engine of DictDataBase (dictdatabase/io_unsafe.py)\<close>

text \<open>
  The module reads and rewrites one key of a JSON document stored as a file, with a
  sidecar index file that remembers where the value of a key was found. It performs
  file I/O and calls into libraries (orjson, json, zlib, hashlib) and into the module
  \<^verbatim>\<open>utils\<close> of the same package. The embedding makes the file system an explicit
  state, every exception a value of a sum type, and the libraries and the functions of
  \<^verbatim>\<open>utils\<close> that are not part of the sources at hand parameters, collected in a
  record.
\<close>

subsection \<open>Python values\<close>

text \<open>
  A Python \<^verbatim>\<open>str\<close> is a sequence of code points and \<^verbatim>\<open>len\<close>, indexing and slicing
  count code points; a \<^verbatim>\<open>bytes\<close> object is a sequence of bytes. The two are kept
  apart: a code point is a natural number, a byte is a \<^typ>\<open>char\<close>.
\<close>

type_synonym pystr = "nat list"
type_synonym bytes = "char list"

text \<open>A \<^verbatim>\<open>str\<close> literal of the source, written as an ASCII string.\<close>

definition str :: "string \<Rightarrow> pystr" where
  "str s = map of_char s"

datatype py_data = Str pystr | Bytes bytes

datatype error =
    FileExistsError
  | FileNotFoundError
  | KeyError
  | IndexError
  | TypeError
  | OSError
  | JSONDecodeError
  | JSONEncodeError
  | UnicodeDecodeError
  | ZlibError

text \<open>
  Slicing \<^verbatim>\<open>xs[i:j]\<close>, \<^verbatim>\<open>xs[:j]\<close> and \<^verbatim>\<open>xs[i:]\<close> never raises: a negative
  bound counts from the end and every bound is clamped to the length. Indexing
  \<^verbatim>\<open>xs[i]\<close> raises IndexError out of range.
\<close>

definition clamp_index :: "nat \<Rightarrow> int \<Rightarrow> nat" where
  "clamp_index n i = (if i < 0 then nat (max (i + int n) 0) else min (nat i) n)"

definition py_slice :: "'a list \<Rightarrow> int \<Rightarrow> int \<Rightarrow> 'a list" where
  "py_slice xs i j =
     (let a = clamp_index (length xs) i; b = clamp_index (length xs) j
      in take (b - a) (drop a xs))"

definition py_slice_to :: "'a list \<Rightarrow> int \<Rightarrow> 'a list" where
  "py_slice_to xs j = take (clamp_index (length xs) j) xs"

definition py_slice_from :: "'a list \<Rightarrow> int \<Rightarrow> 'a list" where
  "py_slice_from xs i = drop (clamp_index (length xs) i) xs"

definition py_index :: "'a list \<Rightarrow> int \<Rightarrow> 'a option" where
  "py_index xs i =
     (let n = int (length xs); j = (if i < 0 then i + n else i)
      in if 0 \<le> j \<and> j < n then Some (xs ! nat j) else None)"

text \<open>\<^verbatim>\<open>n * s\<close> for an int and a str; \<^verbatim>\<open>s.replace(c, t)\<close> for a one-character c.\<close>

definition py_repeat :: "int \<Rightarrow> pystr \<Rightarrow> pystr" where
  "py_repeat n s = concat (replicate (nat n) s)"

definition replace_char :: "nat \<Rightarrow> pystr \<Rightarrow> pystr \<Rightarrow> pystr" where
  "replace_char c t s = concat (map (\<lambda>x. if x = c then t else [x]) s)"

subsection \<open>Configuration, libraries and the file system\<close>

text \<open>
  The module \<^verbatim>\<open>config\<close> is read at call time. \<^verbatim>\<open>config.indent\<close> is tested for
  truth and handed to \<^verbatim>\<open>json.dumps\<close>, which takes None, an int or a str.
\<close>

datatype py_indent = IndentNone | IndentInt int | IndentStr pystr

fun truthy :: "py_indent \<Rightarrow> bool" where
  "truthy IndentNone = False"
| "truthy (IndentInt n) = (n \<noteq> 0)"
| "truthy (IndentStr s) = (s \<noteq> [])"

record config =
  storage_directory :: pystr
  use_compression :: bool
  use_orjson :: bool
  indent :: py_indent
  sort_keys :: bool

text \<open>
  The parameters: the three scanners of \<^verbatim>\<open>utils\<close>, whose code is not part of the
  sources at hand, and the library calls. A library call that can raise returns an
  option. \<^verbatim>\<open>text_read\<close> and \<^verbatim>\<open>text_write\<close> are what a file opened in text mode
  does to the bytes it reads and to the str it writes. The decoded value of a key is
  of a type \<open>'v\<close> the engine never looks into.
\<close>

record 'v env =
  find_outermost_json_key_index :: "pystr \<Rightarrow> pystr \<Rightarrow> int"
  seek_index_through_value :: "pystr \<Rightarrow> int \<Rightarrow> int"
  detect_indentation_in_json_string :: "pystr \<Rightarrow> int \<Rightarrow> int \<times> pystr"
  orjson_loads :: "pystr \<Rightarrow> 'v option"
  orjson_dumps :: "'v \<Rightarrow> int \<Rightarrow> bytes option"
  OPT_INDENT_2 :: int
  OPT_SORT_KEYS :: int
  json_dumps :: "'v \<Rightarrow> py_indent \<Rightarrow> bool \<Rightarrow> pystr option"
  utf8_encode :: "pystr \<Rightarrow> bytes"
  utf8_decode :: "bytes \<Rightarrow> pystr option"
  text_read :: "bytes \<Rightarrow> pystr option"
  text_write :: "pystr \<Rightarrow> bytes"
  sha256_hexdigest :: "bytes \<Rightarrow> pystr"
  zlib_compress :: "bytes \<Rightarrow> bytes"
  zlib_decompress :: "bytes \<Rightarrow> bytes option"

text \<open>
  An entry of the index is the list \<^verbatim>\<open>[start_index, end_index, indent_level,
  indent_with, value_hash]\<close>; the index is a dict from keys to entries. A Python dict
  keeps insertion order and an assignment to a key it holds keeps that key's place,
  which is what \<^const>\<open>AList.update\<close> does on an association list.
\<close>

type_synonym index_entry = "int \<times> int \<times> int \<times> pystr \<times> pystr"
type_synonym index_data = "(pystr \<times> index_entry) list"

text \<open>
  The file system: the document files with their bytes, the index files, and the paths
  on which opening a file for writing fails. An index file is kept as the dict it
  encodes (\<^verbatim>\<open>orjson.loads\<close> gives back the dict of str keys and five-element lists
  that \<^verbatim>\<open>orjson.dumps\<close> was given), in a store of its own: an index path ends in
  \<^verbatim>\<open>.index\<close> and a document path in \<^verbatim>\<open>.json\<close> or \<^verbatim>\<open>.ddb\<close>. Directories are not
  modelled, so the \<^verbatim>\<open>mkdir\<close> of \<^verbatim>\<open>read_index_file\<close> changes nothing here. Reading a
  file that exists and removing one succeed.
\<close>

record fs =
  files :: "pystr \<rightharpoonup> bytes"
  index_files :: "pystr \<rightharpoonup> index_data"
  unwritable :: "pystr set"

text \<open>
  Modelled from the spec: \<^verbatim>\<open>utils.db_paths\<close>, which is not part of the sources at
  hand. The spec gives \<^verbatim>\<open>resolve(db_name) \<rightarrow> (plain_path, plain_exists,
  compressed_path, compressed_exists)\<close> with the document at
  \<^verbatim>\<open>{storage_root}/{db_name}.json\<close> or \<^verbatim>\<open>{storage_root}/{db_name}.ddb\<close>. A
  file exists when the file system holds it.
\<close>

definition json_path_of :: "config \<Rightarrow> pystr \<Rightarrow> pystr" where
  "json_path_of cfg db_name = storage_directory cfg @ str ''/'' @ db_name @ str ''.json''"

definition ddb_path_of :: "config \<Rightarrow> pystr \<Rightarrow> pystr" where
  "ddb_path_of cfg db_name = storage_directory cfg @ str ''/'' @ db_name @ str ''.ddb''"

definition db_paths :: "config \<Rightarrow> pystr \<Rightarrow> fs \<Rightarrow> pystr \<times> bool \<times> pystr \<times> bool" where
  "db_paths cfg db_name s =
     (json_path_of cfg db_name, files s (json_path_of cfg db_name) \<noteq> None,
      ddb_path_of cfg db_name, files s (ddb_path_of cfg db_name) \<noteq> None)"

subsection \<open>Reading\<close>

text \<open>\<^verbatim>\<open>read_file\<close>, lines 36 to 59.\<close>

definition read_file :: "config \<Rightarrow> 'v env \<Rightarrow> pystr \<Rightarrow> bool \<Rightarrow> fs \<Rightarrow> error + py_data" where
  "read_file cfg env db_name as_bytes s =
     (case db_paths cfg db_name s of (json_path, json_exists, ddb_path, ddb_exists) \<Rightarrow>
        if json_exists \<and> ddb_exists then Inl FileExistsError
        else if \<not> json_exists \<and> \<not> ddb_exists then Inl FileNotFoundError
        else if json_exists then
          (if as_bytes then Inr (Bytes (the (files s json_path)))
           else (case text_read env (the (files s json_path)) of
                   None \<Rightarrow> Inl UnicodeDecodeError
                 | Some t \<Rightarrow> Inr (Str t)))
        else
          (case zlib_decompress env (the (files s ddb_path)) of
             None \<Rightarrow> Inl ZlibError
           | Some data_bytes \<Rightarrow>
               if as_bytes then Inr (Bytes data_bytes)
               else (case utf8_decode env data_bytes of
                       None \<Rightarrow> Inl UnicodeDecodeError
                     | Some t \<Rightarrow> Inr (Str t))))"

text \<open>
  \<^verbatim>\<open>read_index_file\<close> and \<^verbatim>\<open>write_index_file\<close>, lines 73 to 86. The path replaces
  every \<^verbatim>\<open>/\<close> of the name by \<^verbatim>\<open>___\<close>. \<^verbatim>\<open>write_index_file\<close> assigns the entry in
  the dict it was given, then opens the file and writes the whole dict; the function
  of the model returns the updated dict, which the caller's handle shares.
\<close>

definition index_path :: "config \<Rightarrow> pystr \<Rightarrow> pystr" where
  "index_path cfg db_name =
     storage_directory cfg @ str ''/.ddb/'' @ replace_char 47 (str ''___'') db_name
       @ str ''.index''"

definition read_index_file :: "config \<Rightarrow> pystr \<Rightarrow> fs \<Rightarrow> index_data" where
  "read_index_file cfg db_name s =
     (case index_files s (index_path cfg db_name) of None \<Rightarrow> [] | Some m \<Rightarrow> m)"

definition write_index_file ::
  "config \<Rightarrow> index_data \<Rightarrow> pystr \<Rightarrow> pystr \<Rightarrow> int \<Rightarrow> int \<Rightarrow> int \<Rightarrow> pystr \<Rightarrow> pystr \<Rightarrow> fs
     \<Rightarrow> (error + index_data) \<times> fs" where
  "write_index_file cfg index_data db_name key start_index end_index indent_level
       indent_with value_hash s =
     (let path = index_path cfg db_name;
          index_data' =
            AList.update key (start_index, end_index, indent_level, indent_with, value_hash)
              index_data
      in if path \<in> unwritable s then (Inl OSError, s)
         else (Inr index_data', s\<lparr>index_files := (index_files s)(path \<mapsto> index_data')\<rparr>))"

text \<open>
  The handle a partial read returns for a later partial write, lines 14 to 28; the
  fields carry the name of their class in front (\<open>pd_\<close>, \<open>pf_\<close>).
\<close>

record 'v PartialDict =
  pd_prefix :: pystr
  pd_key :: pystr
  pd_value :: 'v
  pd_suffix :: pystr

record 'v PartialFileHandle =
  pf_db_name :: pystr
  pf_partial_dict :: "'v PartialDict"
  pf_indent_level :: int
  pf_indent_with :: pystr
  pf_index_data :: index_data

datatype 'v read_result = Value 'v | Handle "'v PartialFileHandle"

text \<open>
  \<^verbatim>\<open>partial_read\<close>, lines 89 to 148, in two parts: the scan of the whole text (lines
  115 to 148), which the function falls through to, and the lookup in the index before
  it (lines 99 to 113). An exception leaves the file system as it is at that moment,
  so the state is returned beside an error as well.
\<close>

definition partial_read_scan ::
  "config \<Rightarrow> 'v env \<Rightarrow> pystr \<Rightarrow> pystr \<Rightarrow> bool \<Rightarrow> pystr \<Rightarrow> index_data \<Rightarrow> fs
     \<Rightarrow> (error + 'v read_result) \<times> fs" where
  "partial_read_scan cfg env db_name key as_handle data index_data s =
     (let json_key = str ''\"'' @ key @ str ''\":'';
          json_key_start_index = find_outermost_json_key_index env data json_key;
          json_key_end_index = json_key_start_index + int (length json_key)
      in if json_key_start_index = - 1 then (Inl KeyError, s)
         else
           (case py_index data json_key_end_index of
              None \<Rightarrow> (Inl IndexError, s)
            | Some c \<Rightarrow>
               (let space_after_semicolon = (if c = 32 then 1 else 0);
                    value_start_index = json_key_end_index + space_after_semicolon;
                    value_end_index = seek_index_through_value env data value_start_index;
                    (indent_level, indent_with) =
                       detect_indentation_in_json_string env data json_key_start_index;
                    partial_str = py_slice data value_start_index value_end_index
                in case write_index_file cfg index_data db_name key value_start_index
                          value_end_index indent_level indent_with
                          (sha256_hexdigest env (utf8_encode env partial_str)) s of
                     (Inl e, s') \<Rightarrow> (Inl e, s')
                   | (Inr index_data', s') \<Rightarrow>
                       (case orjson_loads env partial_str of
                          None \<Rightarrow> (Inl JSONDecodeError, s')
                        | Some partial_value \<Rightarrow>
                            if \<not> as_handle then (Inr (Value partial_value), s')
                            else
                              (Inr (Handle
                                 \<lparr>pf_db_name = db_name,
                                  pf_partial_dict =
                                    \<lparr>pd_prefix = py_slice_to data value_start_index,
                                     pd_key = key, pd_value = partial_value,
                                     pd_suffix = py_slice_from data value_end_index\<rparr>,
                                  pf_indent_level = indent_level,
                                  pf_indent_with = indent_with,
                                  pf_index_data = index_data'\<rparr>), s')))))"

definition partial_read ::
  "config \<Rightarrow> 'v env \<Rightarrow> pystr \<Rightarrow> pystr \<Rightarrow> bool \<Rightarrow> fs \<Rightarrow> (error + 'v read_result) \<times> fs" where
  "partial_read cfg env db_name key as_handle s =
     (case read_file cfg env db_name False s of
        Inl e \<Rightarrow> (Inl e, s)
      | Inr (Bytes b) \<Rightarrow> (Inl TypeError, s)
      | Inr (Str data) \<Rightarrow>
         (let index_data = read_index_file cfg db_name s
          in case map_of index_data key of
               None \<Rightarrow> partial_read_scan cfg env db_name key as_handle data index_data s
             | Some (start_index, end_index, indent_level, indent_with, value_hash) \<Rightarrow>
                 (let partial_str = py_slice data start_index end_index;
                      partial_str_hash = sha256_hexdigest env (utf8_encode env partial_str)
                  in if value_hash = partial_str_hash then
                       (case orjson_loads env partial_str of
                          None \<Rightarrow> (Inl JSONDecodeError, s)
                        | Some partial_value \<Rightarrow>
                            if \<not> as_handle then (Inr (Value partial_value), s)
                            else
                              (Inr (Handle
                                 \<lparr>pf_db_name = db_name,
                                  pf_partial_dict =
                                    \<lparr>pd_prefix = py_slice_to data start_index,
                                     pd_key = key, pd_value = partial_value,
                                     pd_suffix = py_slice_from data end_index\<rparr>,
                                  pf_indent_level = indent_level,
                                  pf_indent_with = indent_with,
                                  pf_index_data = index_data\<rparr>), s))
                     else partial_read_scan cfg env db_name key as_handle data index_data s)))"

subsection \<open>Writing\<close>

text \<open>
  \<^verbatim>\<open>write_dump\<close>, lines 157 to 180. The other representation is removed before the
  file is opened for writing; text mode is used for a str and binary mode for bytes.
\<close>

definition write_dump :: "config \<Rightarrow> 'v env \<Rightarrow> pystr \<Rightarrow> py_data \<Rightarrow> fs \<Rightarrow> (error + unit) \<times> fs" where
  "write_dump cfg env db_name dump s =
     (case db_paths cfg db_name s of (json_path, json_exists, ddb_path, ddb_exists) \<Rightarrow>
        (let write_path = (if use_compression cfg then ddb_path else json_path);
             s1 = (if use_compression cfg
                   then (if json_exists then s\<lparr>files := (files s)(json_path := None)\<rparr> else s)
                   else (if ddb_exists then s\<lparr>files := (files s)(ddb_path := None)\<rparr> else s));
             dump1 = (if use_compression cfg
                      then Bytes (zlib_compress env
                             (case dump of Bytes b \<Rightarrow> b | Str t \<Rightarrow> utf8_encode env t))
                      else dump)
         in if write_path \<in> unwritable s1 then (Inl OSError, s1)
            else (Inr (),
                  s1\<lparr>files := (files s1)(write_path \<mapsto>
                        (case dump1 of Bytes b \<Rightarrow> b | Str t \<Rightarrow> text_write env t))\<rparr>)))"

text \<open>
  The serialization at the head of \<^verbatim>\<open>write\<close> (lines 188 to 193) and the one at the
  head of \<^verbatim>\<open>partial_write\<close> (lines 202 to 208), each as its function writes it.
\<close>

definition write_serialize :: "config \<Rightarrow> 'v env \<Rightarrow> 'v \<Rightarrow> error + py_data" where
  "write_serialize cfg env db =
     (if use_orjson cfg then
        (let option = (if truthy (indent cfg) then OPT_INDENT_2 env else 0);
             option = option OR (if sort_keys cfg then OPT_SORT_KEYS env else 0)
         in case orjson_dumps env db option of
              None \<Rightarrow> Inl JSONEncodeError
            | Some db_dump \<Rightarrow> Inr (Bytes db_dump))
      else
        (case json_dumps env db (indent cfg) (sort_keys cfg) of
           None \<Rightarrow> Inl TypeError
         | Some db_dump \<Rightarrow> Inr (Str db_dump)))"

definition partial_write_serialize :: "config \<Rightarrow> 'v env \<Rightarrow> 'v \<Rightarrow> error + pystr" where
  "partial_write_serialize cfg env v =
     (if use_orjson cfg then
        (let option = (if truthy (indent cfg) then OPT_INDENT_2 env else 0);
             option = option OR (if sort_keys cfg then OPT_SORT_KEYS env else 0)
         in case orjson_dumps env v option of
              None \<Rightarrow> Inl JSONEncodeError
            | Some partial_dump \<Rightarrow>
                (case utf8_decode env partial_dump of
                   None \<Rightarrow> Inl UnicodeDecodeError
                 | Some t \<Rightarrow> Inr t))
      else
        (case json_dumps env v (indent cfg) (sort_keys cfg) of
           None \<Rightarrow> Inl TypeError
         | Some partial_dump \<Rightarrow> Inr partial_dump))"

text \<open>
  \<^verbatim>\<open>write\<close>, lines 183 to 195, under the name \<open>write_db\<close> (\<open>write\<close> is a
  command of Isabelle).
\<close>

definition write_db :: "config \<Rightarrow> 'v env \<Rightarrow> pystr \<Rightarrow> 'v \<Rightarrow> fs \<Rightarrow> (error + unit) \<times> fs" where
  "write_db cfg env db_name db s =
     (case write_serialize cfg env db of
        Inl e \<Rightarrow> (Inl e, s)
      | Inr db_dump \<Rightarrow> write_dump cfg env db_name db_dump s)"

text \<open>
  \<^verbatim>\<open>partial_write\<close>, lines 198 to 225. The re-indentation of line 210 and 211 is
  \<open>reindent\<close>; the index file is written first, the document after it.
\<close>

definition reindent :: "int \<Rightarrow> pystr \<Rightarrow> pystr \<Rightarrow> pystr" where
  "reindent level unit partial_dump =
     (if level > 0 \<and> unit \<noteq> []
      then replace_char 10 (str ''\<newline>'' @ py_repeat level unit) partial_dump
      else partial_dump)"

definition partial_write ::
  "config \<Rightarrow> 'v env \<Rightarrow> 'v PartialFileHandle \<Rightarrow> fs \<Rightarrow> (error + unit) \<times> fs" where
  "partial_write cfg env pf s =
     (case partial_write_serialize cfg env (pd_value (pf_partial_dict pf)) of
        Inl e \<Rightarrow> (Inl e, s)
      | Inr dumped \<Rightarrow>
         (let partial_dump = reindent (pf_indent_level pf) (pf_indent_with pf) dumped
          in case write_index_file cfg (pf_index_data pf) (pf_db_name pf) (pd_key (pf_partial_dict pf))
                    (int (length (pd_prefix (pf_partial_dict pf))))
                    (int (length (pd_prefix (pf_partial_dict pf))) + int (length partial_dump))
                    (pf_indent_level pf) (pf_indent_with pf)
                    (sha256_hexdigest env (utf8_encode env partial_dump)) s of
               (Inl e, s') \<Rightarrow> (Inl e, s')
             | (Inr index_data', s') \<Rightarrow>
                 write_dump cfg env (pf_db_name pf)
                   (Str (pd_prefix (pf_partial_dict pf) @ partial_dump @ pd_suffix (pf_partial_dict pf)))
                   s'))"

section \<open>Notions used to state the properties\<close>

text \<open>
  The handle built at lines 112 to 113 and again at lines 147 to 148, and the decoding
  of the located slice with the two ways to return it (lines 109 to 113 and 143 to
  148), as functions of the entry \<open>(start, end, indent_level, indent_with, hash)\<close>
  that locates the value.
\<close>

definition handle_at ::
  "pystr \<Rightarrow> pystr \<Rightarrow> 'v \<Rightarrow> pystr \<Rightarrow> index_entry \<Rightarrow> index_data \<Rightarrow> 'v PartialFileHandle" where
  "handle_at db k v D e idx =
     (case e of (a, b, lvl, unit, h) \<Rightarrow>
        \<lparr>pf_db_name = db,
         pf_partial_dict =
           \<lparr>pd_prefix = py_slice_to D a, pd_key = k, pd_value = v,
            pd_suffix = py_slice_from D b\<rparr>,
         pf_indent_level = lvl, pf_indent_with = unit, pf_index_data = idx\<rparr>)"

definition decoded_at ::
  "'v env \<Rightarrow> bool \<Rightarrow> pystr \<Rightarrow> pystr \<Rightarrow> pystr \<Rightarrow> index_entry \<Rightarrow> index_data
     \<Rightarrow> error + 'v read_result" where
  "decoded_at env as_handle db k D e idx =
     (case e of (a, b, lvl, unit, h) \<Rightarrow>
        (case orjson_loads env (py_slice D a b) of
           None \<Rightarrow> Inl JSONDecodeError
         | Some v \<Rightarrow> Inr (if as_handle then Handle (handle_at db k v D e idx) else Value v)))"

text \<open>
  An entry is valid for a text when its hash is the hash of the slice of the text
  between its offsets: the test of line 108. The index hits for a key when it holds a
  valid entry for it.
\<close>

definition entry_valid :: "'v env \<Rightarrow> pystr \<Rightarrow> index_entry \<Rightarrow> bool" where
  "entry_valid env D e =
     (case e of (a, b, lvl, unit, h) \<Rightarrow>
        h = sha256_hexdigest env (utf8_encode env (py_slice D a b)))"

definition cache_hit :: "'v env \<Rightarrow> pystr \<Rightarrow> index_data \<Rightarrow> pystr \<Rightarrow> bool" where
  "cache_hit env D idx k =
     (case map_of idx k of None \<Rightarrow> False | Some e \<Rightarrow> entry_valid env D e)"

text \<open>
  The entry that the scan of lines 116 to 140 computes and hands to
  \<^verbatim>\<open>write_index_file\<close>: none when the key token is not found, or when the text ends
  with the key token.
\<close>

definition scanned_entry :: "'v env \<Rightarrow> pystr \<Rightarrow> pystr \<Rightarrow> index_entry option" where
  "scanned_entry env D k =
     (let json_key = str ''\"'' @ k @ str ''\":'';
          i = find_outermost_json_key_index env D json_key;
          j = i + int (length json_key)
      in if i = - 1 then None
         else (case py_index D j of
                 None \<Rightarrow> None
               | Some c \<Rightarrow>
                  (let a = j + (if c = 32 then 1 else 0);
                       b = seek_index_through_value env D a;
                       (lvl, unit) = detect_indentation_in_json_string env D i
                   in Some (a, b, lvl, unit,
                            sha256_hexdigest env (utf8_encode env (py_slice D a b))))))"

text \<open>
  A text survives storage when reading back what \<^verbatim>\<open>write_dump\<close> writes for it, in the
  configured representation, gives the text again. The index is consistent for a key
  when the document can be read and the index holds a valid entry of the key for the
  text read.
\<close>

definition stores_faithfully :: "config \<Rightarrow> 'v env \<Rightarrow> pystr \<Rightarrow> bool" where
  "stores_faithfully cfg env t =
     (if use_compression cfg
      then (case zlib_decompress env (zlib_compress env (utf8_encode env t)) of
              None \<Rightarrow> False
            | Some b \<Rightarrow> utf8_decode env b = Some t)
      else text_read env (text_write env t) = Some t)"

definition index_consistent :: "config \<Rightarrow> 'v env \<Rightarrow> pystr \<Rightarrow> pystr \<Rightarrow> fs \<Rightarrow> bool" where
  "index_consistent cfg env db k s =
     (case read_file cfg env db False s of
        Inl e \<Rightarrow> False
      | Inr (Bytes b) \<Rightarrow> False
      | Inr (Str D) \<Rightarrow> cache_hit env D (read_index_file cfg db s) k)"

section \<open>An instance of the parameters\<close>

text \<open>
  The model runs on concrete documents once the parameters are given. This instance
  is small enough to evaluate: values are the JSON booleans, the key token is searched
  as a substring, a value ends at the next comma or closing brace, no indentation is
  detected, the encodings are the identity on ASCII, the digest of a byte string is the
  string itself and compression puts one byte in front. It stands for nothing more
  than one possible behaviour of the libraries on the small documents below.
\<close>

fun find_from :: "pystr \<Rightarrow> pystr \<Rightarrow> nat \<Rightarrow> int" where
  "find_from [] pat n = (if pat = [] then int n else - 1)"
| "find_from (x # xs) pat n =
     (if take (length pat) (x # xs) = pat then int n else find_from xs pat (Suc n))"

fun seek_delimiter :: "pystr \<Rightarrow> nat \<Rightarrow> int" where
  "seek_delimiter [] n = int n"
| "seek_delimiter (x # xs) n =
     (if x = 44 \<or> x = 125 then int n else seek_delimiter xs (Suc n))"

definition demo_env :: "bool env" where
  "demo_env =
     \<lparr>find_outermost_json_key_index = (\<lambda>data k. find_from data k 0),
      seek_index_through_value = (\<lambda>data i. seek_delimiter (drop (nat i) data) (nat i)),
      detect_indentation_in_json_string = (\<lambda>data i. (0, [])),
      orjson_loads = (\<lambda>t. if t = str ''true'' then Some True
                          else if t = str ''false'' then Some False else None),
      orjson_dumps = (\<lambda>v opt. Some (if v then ''true'' else ''false'')),
      OPT_INDENT_2 = 1,
      OPT_SORT_KEYS = 32,
      json_dumps = (\<lambda>v i sk. Some (str (if v then ''true'' else ''false''))),
      utf8_encode = map char_of,
      utf8_decode = (\<lambda>b. Some (map of_char b)),
      text_read = (\<lambda>b. Some (map of_char b)),
      text_write = map char_of,
      sha256_hexdigest = map of_char,
      zlib_compress = (\<lambda>b. CHR ''z'' # b),
      zlib_decompress = (\<lambda>b. case b of [] \<Rightarrow> None
                                | c # r \<Rightarrow> if c = CHR ''z'' then Some r else None)\<rparr>"

definition demo_cfg :: config where
  "demo_cfg = \<lparr>storage_directory = str ''s'', use_compression = False, use_orjson = False,
     indent = IndentNone, sort_keys = False\<rparr>"

definition demo_fs :: fs where
  "demo_fs = \<lparr>files = [str ''s/d.json'' \<mapsto> ''{\"a\": true}''], index_files = Map.empty,
      unwritable = {}\<rparr>"

text \<open>
  The handle that a partial read of the key \<^verbatim>\<open>a\<close> returns on this document, and the
  handle with the value replaced by \<^verbatim>\<open>false\<close>.
\<close>

definition demo_handle :: "bool PartialFileHandle" where
  "demo_handle =
     \<lparr>pf_db_name = str ''d'',
      pf_partial_dict = \<lparr>pd_prefix = str ''{\"a\": '', pd_key = str ''a'', pd_value = True,
                          pd_suffix = str ''}''\<rparr>,
      pf_indent_level = 0, pf_indent_with = [],
      pf_index_data = [(str ''a'', (6, 10, 0, [], str ''true''))]\<rparr>"

definition demo_update :: "bool PartialFileHandle" where
  "demo_update = demo_handle\<lparr>pf_partial_dict := (pf_partial_dict demo_handle)\<lparr>pd_value := False\<rparr>\<rparr>"

text \<open>
  The same file system with an index entry whose hash does not fit the document, and
  with a document file that cannot be opened for writing.
\<close>

definition demo_fs_stale :: fs where
  "demo_fs_stale =
     demo_fs\<lparr>index_files := [str ''s/.ddb/d.index'' \<mapsto> [(str ''a'', (0, 3, 0, [], str ''old''))]]\<rparr>"

definition demo_fs_readonly :: fs where
  "demo_fs_readonly = demo_fs\<lparr>unwritable := {str ''s/d.json''}\<rparr>"

text \<open>
  The same file system, the document stored plain, with a compressed file that cannot
  be opened for writing: what a write finds when compression has been switched on.
\<close>

definition demo_fs_z_readonly :: fs where
  "demo_fs_z_readonly = demo_fs\<lparr>unwritable := {str ''s/d.ddb''}\<rparr>"

text \<open>
  The configuration with compression on, a file system that holds the document
  compressed, and one that holds both representations.
\<close>

definition demo_cfg_z :: config where
  "demo_cfg_z = demo_cfg\<lparr>use_compression := True\<rparr>"

definition demo_fs_z :: fs where
  "demo_fs_z = \<lparr>files = [str ''s/d.ddb'' \<mapsto> ''z{\"a\": true}''], index_files = Map.empty,
      unwritable = {}\<rparr>"

definition demo_fs_both :: fs where
  "demo_fs_both =
     \<lparr>files = [str ''s/d.json'' \<mapsto> ''{\"a\": true}'', str ''s/d.ddb'' \<mapsto> ''z{\"a\": true}''],
      index_files = Map.empty, unwritable = {}\<rparr>"

text \<open>
  A document with the one key \<^verbatim>\<open>b\<close>; the file system after a partial read of
  \<^verbatim>\<open>b\<close> on it, which writes the index, followed by a write of a whole new document
  in which another key comes first; and the handle that a partial read of \<^verbatim>\<open>b\<close>
  returns then.
\<close>

definition demo_fs_b :: fs where
  "demo_fs_b = \<lparr>files = [str ''s/d.json'' \<mapsto> ''{\"b\": true}''], index_files = Map.empty,
      unwritable = {}\<rparr>"

definition demo_fs_moved :: fs where
  "demo_fs_moved =
     snd (write_dump demo_cfg demo_env (str ''d'') (Str (str ''{\"a\": true, \"b\": false}''))
            (snd (partial_read demo_cfg demo_env (str ''d'') (str ''b'') False demo_fs_b)))"

definition demo_handle_b :: "bool PartialFileHandle" where
  "demo_handle_b =
     \<lparr>pf_db_name = str ''d'',
      pf_partial_dict = \<lparr>pd_prefix = str ''{\"a\": '', pd_key = str ''b'', pd_value = True,
                          pd_suffix = str '', \"b\": false}''\<rparr>,
      pf_indent_level = 0, pf_indent_with = [],
      pf_index_data = [(str ''b'', (6, 10, 0, [], str ''true''))]\<rparr>"

section \<open>Properties\<close>

lemmas run_defs =
  partial_read_def partial_read_scan_def read_file_def db_paths_def json_path_of_def
  ddb_path_of_def read_index_file_def index_path_def replace_char_def py_index_def py_slice_def
  clamp_index_def write_index_file_def py_slice_to_def py_slice_from_def write_dump_def
  partial_write_def partial_write_serialize_def write_serialize_def write_db_def reindent_def
  py_repeat_def str_def Let_def demo_env_def demo_cfg_def demo_fs_def demo_handle_def
  demo_update_def demo_fs_stale_def demo_fs_readonly_def demo_fs_b_def demo_fs_moved_def
  demo_handle_b_def demo_cfg_z_def demo_fs_z_def demo_fs_both_def demo_fs_z_readonly_def

text \<open>The two representations of a database have different paths.\<close>

lemma json_ddb_distinct: "json_path_of cfg db \<noteq> ddb_path_of cfg db"
  by (simp add: json_path_of_def ddb_path_of_def str_def)

text \<open>
  No index file has the path of a document file, which is why the two kinds of files
  are kept in stores of their own.
\<close>

lemma index_path_not_document:
  "index_path cfg a \<noteq> json_path_of cfg b \<and> index_path cfg a \<noteq> ddb_path_of cfg b"
proof -
  have "last (index_path cfg a) = 120"
    by (simp add: index_path_def str_def)
  moreover have "last (json_path_of cfg b) = 110"
    by (simp add: json_path_of_def str_def)
  moreover have "last (ddb_path_of cfg b) = 98"
    by (simp add: ddb_path_of_def str_def)
  ultimately show ?thesis by (metis numeral_eq_iff num.distinct semiring_norm(88,89) num.inject)
qed

text \<open>Asked for a str, \<^verbatim>\<open>read_file\<close> never returns bytes.\<close>

lemma read_file_not_bytes: "read_file cfg env db False s \<noteq> Inr (Bytes b)"
  by (simp add: read_file_def db_paths_def split: option.splits)

subsection \<open>Reading a document\<close>

text \<open>
  Claim C5. \<^verbatim>\<open>read_file\<close> fails with FileExistsError, the inconsistent-storage error,
  exactly when both the plain and the compressed file exist, and with
  FileNotFoundError exactly when neither exists. When only the plain file exists it
  returns its text (its bytes when bytes are asked for); when only the compressed file
  exists it returns the decompressed text (the decompressed bytes when bytes are asked
  for). Where the text decoder or zlib rejects the stored bytes, the library's own
  error is raised, which is neither of the two.
\<close>

theorem read_file_characterization:
  "((read_file cfg env db ab s = Inl FileExistsError) =
      (files s (json_path_of cfg db) \<noteq> None \<and> files s (ddb_path_of cfg db) \<noteq> None))
   \<and> ((read_file cfg env db ab s = Inl FileNotFoundError) =
      (files s (json_path_of cfg db) = None \<and> files s (ddb_path_of cfg db) = None))
   \<and> (files s (json_path_of cfg db) = Some c \<and> files s (ddb_path_of cfg db) = None
        \<and> text_read env c = Some t
      \<longrightarrow> read_file cfg env db False s = Inr (Str t))
   \<and> (files s (json_path_of cfg db) = Some c \<and> files s (ddb_path_of cfg db) = None
      \<longrightarrow> read_file cfg env db True s = Inr (Bytes c))
   \<and> (files s (json_path_of cfg db) = None \<and> files s (ddb_path_of cfg db) = Some z
        \<and> zlib_decompress env z = Some b \<and> utf8_decode env b = Some t
      \<longrightarrow> read_file cfg env db False s = Inr (Str t))
   \<and> (files s (json_path_of cfg db) = None \<and> files s (ddb_path_of cfg db) = Some z
        \<and> zlib_decompress env z = Some b
      \<longrightarrow> read_file cfg env db True s = Inr (Bytes b))"
  by (auto simp add: read_file_def db_paths_def split: option.splits)

theorem read_file_characterization_witness:
  "files demo_fs_both (json_path_of demo_cfg (str ''d'')) \<noteq> None
   \<and> files demo_fs_both (ddb_path_of demo_cfg (str ''d'')) \<noteq> None
   \<and> read_file demo_cfg demo_env (str ''d'') False demo_fs_both = Inl FileExistsError
   \<and> files demo_fs (json_path_of demo_cfg (str ''x'')) = None
   \<and> files demo_fs (ddb_path_of demo_cfg (str ''x'')) = None
   \<and> read_file demo_cfg demo_env (str ''x'') False demo_fs = Inl FileNotFoundError
   \<and> files demo_fs (json_path_of demo_cfg (str ''d'')) = Some ''{\"a\": true}''
   \<and> files demo_fs (ddb_path_of demo_cfg (str ''d'')) = None
   \<and> text_read demo_env ''{\"a\": true}'' = Some (str ''{\"a\": true}'')
   \<and> read_file demo_cfg demo_env (str ''d'') False demo_fs = Inr (Str (str ''{\"a\": true}''))
   \<and> read_file demo_cfg demo_env (str ''d'') True demo_fs = Inr (Bytes ''{\"a\": true}'')
   \<and> files demo_fs_z (json_path_of demo_cfg (str ''d'')) = None
   \<and> files demo_fs_z (ddb_path_of demo_cfg (str ''d'')) = Some ''z{\"a\": true}''
   \<and> zlib_decompress demo_env ''z{\"a\": true}'' = Some ''{\"a\": true}''
   \<and> utf8_decode demo_env ''{\"a\": true}'' = Some (str ''{\"a\": true}'')
   \<and> read_file demo_cfg demo_env (str ''d'') False demo_fs_z = Inr (Str (str ''{\"a\": true}''))
   \<and> read_file demo_cfg demo_env (str ''d'') True demo_fs_z = Inr (Bytes ''{\"a\": true}'')"
proof -
  note c = read_file_characterization
  have b: "files demo_fs_both (json_path_of demo_cfg (str ''d'')) \<noteq> None
       \<and> files demo_fs_both (ddb_path_of demo_cfg (str ''d'')) \<noteq> None"
    by (simp add: run_defs)
  have n: "files demo_fs (json_path_of demo_cfg (str ''x'')) = None
       \<and> files demo_fs (ddb_path_of demo_cfg (str ''x'')) = None"
    by (simp add: run_defs)
  have j: "files demo_fs (json_path_of demo_cfg (str ''d'')) = Some ''{\"a\": true}''
       \<and> files demo_fs (ddb_path_of demo_cfg (str ''d'')) = None"
    by (simp add: run_defs)
  have jt: "text_read demo_env ''{\"a\": true}'' = Some (str ''{\"a\": true}'')"
    by (simp add: run_defs)
  have z: "files demo_fs_z (json_path_of demo_cfg (str ''d'')) = None
       \<and> files demo_fs_z (ddb_path_of demo_cfg (str ''d'')) = Some ''z{\"a\": true}''
       \<and> zlib_decompress demo_env ''z{\"a\": true}'' = Some ''{\"a\": true}''"
    by (simp add: run_defs)
  have zt: "utf8_decode demo_env ''{\"a\": true}'' = Some (str ''{\"a\": true}'')"
    by (simp add: run_defs)
  have r1: "read_file demo_cfg demo_env (str ''d'') False demo_fs_both = Inl FileExistsError"
    by (rule c [THEN conjunct1, THEN iffD2, OF b])
  have r2: "read_file demo_cfg demo_env (str ''x'') False demo_fs = Inl FileNotFoundError"
    by (rule c [THEN conjunct2, THEN conjunct1, THEN iffD2, OF n])
  from j jt have j3: "files demo_fs (json_path_of demo_cfg (str ''d'')) = Some ''{\"a\": true}''
       \<and> files demo_fs (ddb_path_of demo_cfg (str ''d'')) = None
       \<and> text_read demo_env ''{\"a\": true}'' = Some (str ''{\"a\": true}'')"
    by (simp only: simp_thms)
  have r3: "read_file demo_cfg demo_env (str ''d'') False demo_fs
              = Inr (Str (str ''{\"a\": true}''))"
    by (rule c [THEN conjunct2, THEN conjunct2, THEN conjunct1, rule_format, OF j3])
  have r4: "read_file demo_cfg demo_env (str ''d'') True demo_fs = Inr (Bytes ''{\"a\": true}'')"
    by (rule c [THEN conjunct2, THEN conjunct2, THEN conjunct2, THEN conjunct1, rule_format,
                OF j])
  from z zt have z5: "files demo_fs_z (json_path_of demo_cfg (str ''d'')) = None
       \<and> files demo_fs_z (ddb_path_of demo_cfg (str ''d'')) = Some ''z{\"a\": true}''
       \<and> zlib_decompress demo_env ''z{\"a\": true}'' = Some ''{\"a\": true}''
       \<and> utf8_decode demo_env ''{\"a\": true}'' = Some (str ''{\"a\": true}'')"
    by (simp only: simp_thms)
  have r5: "read_file demo_cfg demo_env (str ''d'') False demo_fs_z
              = Inr (Str (str ''{\"a\": true}''))"
    by (rule c [THEN conjunct2, THEN conjunct2, THEN conjunct2, THEN conjunct2,
                THEN conjunct1, rule_format, OF z5])
  have r6: "read_file demo_cfg demo_env (str ''d'') True demo_fs_z = Inr (Bytes ''{\"a\": true}'')"
    by (rule c [THEN conjunct2, THEN conjunct2, THEN conjunct2, THEN conjunct2,
                THEN conjunct2, rule_format, OF z])
  from b n j jt z zt r1 r2 r3 r4 r5 r6 show ?thesis by (simp only: simp_thms)
qed

subsection \<open>Writing a document\<close>

lemma write_dump_files:
  assumes "write_dump cfg env db dump s = (Inr (), s')"
  shows "files s' (if use_compression cfg then json_path_of cfg db else ddb_path_of cfg db) = None"
    and "files s' (if use_compression cfg then ddb_path_of cfg db else json_path_of cfg db) =
           Some (if use_compression cfg
                 then zlib_compress env (case dump of Bytes b \<Rightarrow> b | Str t \<Rightarrow> utf8_encode env t)
                 else (case dump of Bytes b \<Rightarrow> b | Str t \<Rightarrow> text_write env t))"
    and "index_files s' = index_files s"
    and "unwritable s' = unwritable s"
  using assms json_ddb_distinct [of cfg db]
  by (auto simp add: write_dump_def db_paths_def Let_def split: if_splits)

lemma partial_write_success:
  assumes "partial_write cfg env pf s = (Inr (), s')"
  obtains dumped where
    "partial_write_serialize cfg env (pd_value (pf_partial_dict pf)) = Inr dumped"
    "index_path cfg (pf_db_name pf) \<notin> unwritable s"
    "write_dump cfg env (pf_db_name pf)
       (Str (pd_prefix (pf_partial_dict pf)
             @ reindent (pf_indent_level pf) (pf_indent_with pf) dumped
             @ pd_suffix (pf_partial_dict pf)))
       (s\<lparr>index_files := (index_files s)(index_path cfg (pf_db_name pf) \<mapsto>
            AList.update (pd_key (pf_partial_dict pf))
              (int (length (pd_prefix (pf_partial_dict pf))),
               int (length (pd_prefix (pf_partial_dict pf)))
                 + int (length (reindent (pf_indent_level pf) (pf_indent_with pf) dumped)),
               pf_indent_level pf, pf_indent_with pf,
               sha256_hexdigest env
                 (utf8_encode env (reindent (pf_indent_level pf) (pf_indent_with pf) dumped)))
              (pf_index_data pf))\<rparr>) = (Inr (), s')"
  using assms
  by (auto simp add: partial_write_def write_index_file_def Let_def
      split: sum.splits if_splits prod.splits)

text \<open>
  Claim C3. After a successful \<^verbatim>\<open>write_dump\<close>, and so after a successful
  \<^verbatim>\<open>write\<close> or \<^verbatim>\<open>partial_write\<close>, exactly one of the plain and the compressed
  file of the database exists, and the file of the representation opposite to the
  configured one does not exist, whether it existed before or not.
\<close>

theorem write_exclusive:
  "(write_dump cfg env db dump s = (Inr (), s') \<longrightarrow>
      (files s' (json_path_of cfg db) = None) \<noteq> (files s' (ddb_path_of cfg db) = None)
      \<and> files s' (if use_compression cfg then json_path_of cfg db else ddb_path_of cfg db)
          = None)
   \<and> (write_db cfg env db v s = (Inr (), s') \<longrightarrow>
      (files s' (json_path_of cfg db) = None) \<noteq> (files s' (ddb_path_of cfg db) = None)
      \<and> files s' (if use_compression cfg then json_path_of cfg db else ddb_path_of cfg db)
          = None)
   \<and> (partial_write cfg env pf s = (Inr (), s') \<longrightarrow>
      (files s' (json_path_of cfg (pf_db_name pf)) = None)
        \<noteq> (files s' (ddb_path_of cfg (pf_db_name pf)) = None)
      \<and> files s' (if use_compression cfg then json_path_of cfg (pf_db_name pf)
                   else ddb_path_of cfg (pf_db_name pf)) = None)"
proof (intro conjI impI)
  assume w: "write_dump cfg env db dump s = (Inr (), s')"
  from write_dump_files(1,2) [OF w]
  show "(files s' (json_path_of cfg db) = None) \<noteq> (files s' (ddb_path_of cfg db) = None)"
    by (auto split: if_splits)
  from write_dump_files(1) [OF w]
  show "files s' (if use_compression cfg then json_path_of cfg db else ddb_path_of cfg db)
          = None" .
next
  assume "write_db cfg env db v s = (Inr (), s')"
  then obtain d where w: "write_dump cfg env db d s = (Inr (), s')"
    by (auto simp add: write_db_def split: sum.splits)
  from write_dump_files(1,2) [OF w]
  show "(files s' (json_path_of cfg db) = None) \<noteq> (files s' (ddb_path_of cfg db) = None)"
    by (auto split: if_splits)
  from write_dump_files(1) [OF w]
  show "files s' (if use_compression cfg then json_path_of cfg db else ddb_path_of cfg db)
          = None" .
next
  assume "partial_write cfg env pf s = (Inr (), s')"
  then obtain d s1 where w: "write_dump cfg env (pf_db_name pf) d s1 = (Inr (), s')"
    by (rule partial_write_success)
  from write_dump_files(1,2) [OF w]
  show "(files s' (json_path_of cfg (pf_db_name pf)) = None)
          \<noteq> (files s' (ddb_path_of cfg (pf_db_name pf)) = None)"
    by (auto split: if_splits)
  from write_dump_files(1) [OF w]
  show "files s' (if use_compression cfg then json_path_of cfg (pf_db_name pf)
                  else ddb_path_of cfg (pf_db_name pf)) = None" .
qed

theorem write_exclusive_witness:
  "fst (write_dump demo_cfg_z demo_env (str ''d'') (Str (str ''{}'')) demo_fs) = Inr ()
   \<and> files demo_fs (json_path_of demo_cfg_z (str ''d'')) \<noteq> None
   \<and> files (snd (write_dump demo_cfg_z demo_env (str ''d'') (Str (str ''{}'')) demo_fs))
        (json_path_of demo_cfg_z (str ''d'')) = None
   \<and> files (snd (write_dump demo_cfg_z demo_env (str ''d'') (Str (str ''{}'')) demo_fs))
        (ddb_path_of demo_cfg_z (str ''d'')) \<noteq> None
   \<and> fst (write_db demo_cfg demo_env (str ''d'') True demo_fs_z) = Inr ()
   \<and> files demo_fs_z (ddb_path_of demo_cfg (str ''d'')) \<noteq> None
   \<and> files (snd (write_db demo_cfg demo_env (str ''d'') True demo_fs_z))
        (ddb_path_of demo_cfg (str ''d'')) = None
   \<and> files (snd (write_db demo_cfg demo_env (str ''d'') True demo_fs_z))
        (json_path_of demo_cfg (str ''d'')) \<noteq> None
   \<and> fst (partial_write demo_cfg demo_env demo_update demo_fs) = Inr ()
   \<and> files (snd (partial_write demo_cfg demo_env demo_update demo_fs))
        (ddb_path_of demo_cfg (str ''d'')) = None
   \<and> files (snd (partial_write demo_cfg demo_env demo_update demo_fs))
        (json_path_of demo_cfg (str ''d'')) \<noteq> None"
proof -
  let ?w = "write_dump demo_cfg_z demo_env (str ''d'') (Str (str ''{}'')) demo_fs"
  let ?v = "write_db demo_cfg demo_env (str ''d'') True demo_fs_z"
  let ?p = "partial_write demo_cfg demo_env demo_update demo_fs"
  have z: "use_compression demo_cfg_z" "\<not> use_compression demo_cfg"
    by (simp_all add: demo_cfg_z_def demo_cfg_def)
  have n: "pf_db_name demo_update = str ''d''"
    by (simp add: demo_update_def demo_handle_def)
  have w1: "fst ?w = Inr ()" by (simp add: run_defs)
  then have w2: "?w = (Inr (), snd ?w)" by (metis prod.collapse)
  have w0: "files demo_fs (json_path_of demo_cfg_z (str ''d'')) \<noteq> None"
    by (simp add: run_defs)
  from write_exclusive [THEN conjunct1, rule_format, OF w2] z
  have w3: "files (snd ?w) (json_path_of demo_cfg_z (str ''d'')) = None
            \<and> files (snd ?w) (ddb_path_of demo_cfg_z (str ''d'')) \<noteq> None"
    by auto
  have v1: "fst ?v = Inr ()" by (simp add: run_defs)
  then have v2: "?v = (Inr (), snd ?v)" by (metis prod.collapse)
  have v0: "files demo_fs_z (ddb_path_of demo_cfg (str ''d'')) \<noteq> None"
    by (simp add: run_defs)
  from write_exclusive [THEN conjunct2, THEN conjunct1, rule_format, OF v2] z
  have v3: "files (snd ?v) (ddb_path_of demo_cfg (str ''d'')) = None
            \<and> files (snd ?v) (json_path_of demo_cfg (str ''d'')) \<noteq> None"
    by auto
  have p1: "fst ?p = Inr ()" by (simp add: run_defs)
  then have p2: "?p = (Inr (), snd ?p)" by (metis prod.collapse)
  from write_exclusive [THEN conjunct2, THEN conjunct2, rule_format, OF p2] z n
  have p3: "files (snd ?p) (ddb_path_of demo_cfg (str ''d'')) = None
            \<and> files (snd ?p) (json_path_of demo_cfg (str ''d'')) \<noteq> None"
    by auto
  from w1 w0 w3 v1 v0 v3 p1 p3 show ?thesis by (simp only: simp_thms)
qed

lemma index_entry_after_write:
  assumes "partial_write cfg env pf s = (Inr (), s')"
      and "partial_write_serialize cfg env (pd_value (pf_partial_dict pf)) = Inr dumped"
  shows "map_of (read_index_file cfg (pf_db_name pf) s') (pd_key (pf_partial_dict pf)) =
               Some (int (length (pd_prefix (pf_partial_dict pf))),
                     int (length (pd_prefix (pf_partial_dict pf)))
                       + int (length (reindent (pf_indent_level pf) (pf_indent_with pf) dumped)),
                     pf_indent_level pf, pf_indent_with pf,
                     sha256_hexdigest env
                       (utf8_encode env
                          (reindent (pf_indent_level pf) (pf_indent_with pf) dumped)))"
proof -
  from assms obtain s1 d where
    s1: "s1 = s\<lparr>index_files := (index_files s)(index_path cfg (pf_db_name pf) \<mapsto>
            AList.update (pd_key (pf_partial_dict pf))
              (int (length (pd_prefix (pf_partial_dict pf))),
               int (length (pd_prefix (pf_partial_dict pf)))
                 + int (length (reindent (pf_indent_level pf) (pf_indent_with pf) dumped)),
               pf_indent_level pf, pf_indent_with pf,
               sha256_hexdigest env
                 (utf8_encode env (reindent (pf_indent_level pf) (pf_indent_with pf) dumped)))
              (pf_index_data pf))\<rparr>"
    and w: "write_dump cfg env (pf_db_name pf) d s1 = (Inr (), s')"
    by (elim partial_write_success) auto
  from write_dump_files(3) [OF w] s1
  show ?thesis
    by (simp add: read_index_file_def update_conv')
qed

text \<open>
  Claim C7. After a completed \<^verbatim>\<open>partial_write\<close>, the index file holds for the key
  of the handle the entry whose start is the length of the handle's prefix, whose end
  is that length plus the length of the serialized and re-indented value, whose
  indentation level and unit are the handle's, and whose hash is the hash of the
  encoding of the serialized and re-indented value.
\<close>

theorem partial_write_index_entry:
  assumes "partial_write cfg env pf s = (Inr (), s')"
  shows "\<exists>dumped.
           partial_write_serialize cfg env (pd_value (pf_partial_dict pf)) = Inr dumped
           \<and> map_of (read_index_file cfg (pf_db_name pf) s') (pd_key (pf_partial_dict pf)) =
               Some (int (length (pd_prefix (pf_partial_dict pf))),
                     int (length (pd_prefix (pf_partial_dict pf)))
                       + int (length (reindent (pf_indent_level pf) (pf_indent_with pf) dumped)),
                     pf_indent_level pf, pf_indent_with pf,
                     sha256_hexdigest env
                       (utf8_encode env
                          (reindent (pf_indent_level pf) (pf_indent_with pf) dumped)))"
proof -
  from assms obtain dumped where
    "partial_write_serialize cfg env (pd_value (pf_partial_dict pf)) = Inr dumped"
    by (elim partial_write_success)
  with index_entry_after_write [OF assms] show ?thesis by blast
qed

theorem partial_write_index_entry_witness:
  "fst (partial_write demo_cfg demo_env demo_update demo_fs) = Inr ()
   \<and> map_of (read_index_file demo_cfg (str ''d'')
               (snd (partial_write demo_cfg demo_env demo_update demo_fs))) (str ''a'')
       = Some (6, 11, 0, [], str ''false'')"
proof -
  let ?w = "partial_write demo_cfg demo_env demo_update demo_fs"
  have 1: "fst ?w = Inr ()" by (simp add: run_defs)
  then have 2: "?w = (Inr (), snd ?w)" by (metis prod.collapse)
  have 3: "partial_write_serialize demo_cfg demo_env (pd_value (pf_partial_dict demo_update))
             = Inr (str ''false'')"
    by (simp add: run_defs)
  from partial_write_index_entry [OF 2] 3
  have "map_of (read_index_file demo_cfg (pf_db_name demo_update) (snd ?w))
          (pd_key (pf_partial_dict demo_update)) =
        Some (int (length (pd_prefix (pf_partial_dict demo_update))),
              int (length (pd_prefix (pf_partial_dict demo_update)))
                + int (length (reindent (pf_indent_level demo_update)
                                 (pf_indent_with demo_update) (str ''false''))),
              pf_indent_level demo_update, pf_indent_with demo_update,
              sha256_hexdigest demo_env
                (utf8_encode demo_env
                   (reindent (pf_indent_level demo_update) (pf_indent_with demo_update)
                      (str ''false''))))"
    by auto
  moreover have "pf_db_name demo_update = str ''d''"
    and "pd_key (pf_partial_dict demo_update) = str ''a''"
    and "int (length (pd_prefix (pf_partial_dict demo_update))) = 6"
    and "pf_indent_level demo_update = 0" and "pf_indent_with demo_update = []"
    by (simp_all add: demo_update_def demo_handle_def str_def)
  moreover have "reindent 0 [] (str ''false'') = str ''false''"
    by (simp add: reindent_def)
  moreover have "int (length (str ''false'')) = 5" by (simp add: str_def)
  moreover have "sha256_hexdigest demo_env (utf8_encode demo_env (str ''false'')) = str ''false''"
    by (simp add: demo_env_def str_def)
  ultimately show ?thesis using 1 by simp
qed

lemma serializer_text:
  "partial_write_serialize cfg env v =
     (case write_serialize cfg env v of
        Inl e \<Rightarrow> Inl e
      | Inr (Str t) \<Rightarrow> Inr t
      | Inr (Bytes b) \<Rightarrow>
          (case utf8_decode env b of None \<Rightarrow> Inl UnicodeDecodeError | Some t \<Rightarrow> Inr t))"
  by (simp add: partial_write_serialize_def write_serialize_def Let_def split: option.splits)

text \<open>
  Claim C8. The serialization at the head of \<^verbatim>\<open>partial_write\<close>, before the
  re-indentation, is the serialization that \<^verbatim>\<open>write\<close> computes for the same value
  under the same configuration, decoded to a str where orjson gave bytes; so the bytes
  that encode the one are the bytes of the other, the decoder being inverted by the
  encoder.
\<close>

theorem serializer_equivalence:
  "partial_write_serialize cfg env v =
     (case write_serialize cfg env v of
        Inl e \<Rightarrow> Inl e
      | Inr (Str t) \<Rightarrow> Inr t
      | Inr (Bytes b) \<Rightarrow>
          (case utf8_decode env b of None \<Rightarrow> Inl UnicodeDecodeError | Some t \<Rightarrow> Inr t))
   \<and> ((\<forall>b u. utf8_decode env b = Some u \<longrightarrow> utf8_encode env u = b)
        \<and> partial_write_serialize cfg env v = Inr t
      \<longrightarrow> (\<exists>d. write_serialize cfg env v = Inr d
               \<and> (case d of Bytes b \<Rightarrow> b | Str u \<Rightarrow> utf8_encode env u) = utf8_encode env t))"
proof (intro conjI impI)
  show "partial_write_serialize cfg env v =
     (case write_serialize cfg env v of
        Inl e \<Rightarrow> Inl e
      | Inr (Str t) \<Rightarrow> Inr t
      | Inr (Bytes b) \<Rightarrow>
          (case utf8_decode env b of None \<Rightarrow> Inl UnicodeDecodeError | Some t \<Rightarrow> Inr t))"
    by (rule serializer_text)
next
  assume a: "(\<forall>b u. utf8_decode env b = Some u \<longrightarrow> utf8_encode env u = b)
        \<and> partial_write_serialize cfg env v = Inr t"
  then have inv: "\<And>b u. utf8_decode env b = Some u \<Longrightarrow> utf8_encode env u = b"
    and p: "partial_write_serialize cfg env v = Inr t" by blast+
  show "\<exists>d. write_serialize cfg env v = Inr d
               \<and> (case d of Bytes b \<Rightarrow> b | Str u \<Rightarrow> utf8_encode env u) = utf8_encode env t"
  proof (cases "write_serialize cfg env v")
    case (Inl e)
    with p show ?thesis by (simp add: serializer_text)
  next
    case (Inr d)
    show ?thesis
    proof (cases d)
      case (Str u)
      with Inr p show ?thesis by (simp add: serializer_text)
    next
      case (Bytes b)
      with Inr p have "utf8_decode env b = Some t"
        by (simp add: serializer_text split: option.splits)
      from inv [OF this] Inr Bytes show ?thesis by simp
    qed
  qed
qed

theorem serializer_equivalence_witness:
  "partial_write_serialize (demo_cfg\<lparr>use_orjson := True\<rparr>) demo_env True = Inr (str ''true'')
   \<and> write_serialize (demo_cfg\<lparr>use_orjson := True\<rparr>) demo_env True = Inr (Bytes ''true'')
   \<and> utf8_encode demo_env (str ''true'') = ''true''"
proof -
  let ?c = "demo_cfg\<lparr>use_orjson := True\<rparr>"
  have inv: "\<forall>b u. utf8_decode demo_env b = Some u \<longrightarrow> utf8_encode demo_env u = b"
    by (auto simp add: demo_env_def)
  have p: "partial_write_serialize ?c demo_env True = Inr (str ''true'')"
    by (simp add: run_defs)
  from serializer_equivalence [THEN conjunct2, rule_format, OF conjI [OF inv p]]
  obtain d where d: "write_serialize ?c demo_env True = Inr d"
    and e: "(case d of Bytes b \<Rightarrow> b | Str u \<Rightarrow> utf8_encode demo_env u)
              = utf8_encode demo_env (str ''true'')"
    by blast
  have w: "write_serialize ?c demo_env True = Inr (Bytes ''true'')"
    by (simp add: run_defs)
  with d e have "utf8_encode demo_env (str ''true'') = ''true''" by auto
  with p w show ?thesis by simp
qed

subsection \<open>Partial reads\<close>

lemma read_file_scanners:
  "read_file cfg (env\<lparr>find_outermost_json_key_index := f, seek_index_through_value := g,
       detect_indentation_in_json_string := d\<rparr>) db ab s = read_file cfg env db ab s"
  by (simp add: read_file_def db_paths_def cong: option.case_cong)

lemma partial_read_hit:
  assumes "read_file cfg env db False s = Inr (Str D)"
      and "map_of (read_index_file cfg db s) k = Some e"
      and "entry_valid env D e"
  shows "partial_read cfg env db k ah s = (decoded_at env ah db k D e (read_index_file cfg db s), s)"
  using assms
  by (cases e) (auto simp add: partial_read_def entry_valid_def decoded_at_def handle_at_def Let_def
      split: option.splits)

lemma partial_read_miss:
  assumes "read_file cfg env db False s = Inr (Str D)"
      and "\<not> cache_hit env D (read_index_file cfg db s) k"
  shows "partial_read cfg env db k ah s =
           partial_read_scan cfg env db k ah D (read_index_file cfg db s) s"
  using assms
  by (auto simp add: partial_read_def cache_hit_def entry_valid_def Let_def
      split: option.splits)

lemma partial_read_scan_outcome:
  "partial_read_scan cfg env db k ah D idx s =
     (case scanned_entry env D k of
        None \<Rightarrow>
          ((if find_outermost_json_key_index env D (str ''\"'' @ k @ str ''\":'') = - 1
            then Inl KeyError else Inl IndexError), s)
      | Some e \<Rightarrow>
          if index_path cfg db \<in> unwritable s then (Inl OSError, s)
          else (decoded_at env ah db k D e (AList.update k e idx),
                s\<lparr>index_files := (index_files s)(index_path cfg db \<mapsto> AList.update k e idx)\<rparr>))"
  by (auto simp add: partial_read_scan_def scanned_entry_def decoded_at_def handle_at_def
      write_index_file_def Let_def split: option.splits prod.splits)

lemma scanned_entry_valid: "scanned_entry env D k = Some e \<Longrightarrow> entry_valid env D e"
  by (auto simp add: scanned_entry_def entry_valid_def Let_def split: option.splits prod.splits if_splits)

lemma write_then_read:
  assumes "write_dump cfg env db (Str t) s = (Inr (), s')"
      and "stores_faithfully cfg env t"
  shows "read_file cfg env db False s' = Inr (Str t)"
  using write_dump_files(1,2) [OF assms(1)] assms(2)
  by (auto simp add: read_file_def db_paths_def stores_faithfully_def
      split: if_splits option.splits)

lemma slice_of_middle:
  "py_slice (p @ m @ q) (int (length p)) (int (length p) + int (length m)) = m"
  by (simp add: py_slice_def clamp_index_def nat_add_distrib)

lemma slices_partition:
  "0 \<le> a \<Longrightarrow> a \<le> b \<Longrightarrow> py_slice_to D a @ py_slice D a b @ py_slice_from D b = D"
proof -
  assume a: "0 \<le> a" and ab: "a \<le> b"
  define i where "i = min (nat a) (length D)"
  define j where "j = min (nat b) (length D)"
  have ij: "i \<le> j" using a ab by (simp add: i_def j_def)
  have "take i D @ take (j - i) (drop i D) @ drop j D = D"
  proof -
    have "take (j - i) (drop i D) @ drop j D = drop i D"
      using ij by (metis append_take_drop_id drop_drop le_add_diff_inverse2)
    then show ?thesis by simp
  qed
  then show ?thesis
    using a ab
    by (simp add: py_slice_to_def py_slice_def py_slice_from_def clamp_index_def i_def j_def
        Let_def)
qed

lemma partial_read_cases:
  assumes "partial_read cfg env db k ah s = (r, s1)"
      and "read_file cfg env db False s = Inr (Str D)"
  shows "(\<exists>e. map_of (read_index_file cfg db s) k = Some e \<and> entry_valid env D e
              \<and> r = decoded_at env ah db k D e (read_index_file cfg db s) \<and> s1 = s)
         \<or> (\<not> cache_hit env D (read_index_file cfg db s) k
              \<and> scanned_entry env D k = None \<and> s1 = s \<and> (r = Inl KeyError \<or> r = Inl IndexError))
         \<or> (\<exists>e. \<not> cache_hit env D (read_index_file cfg db s) k
              \<and> scanned_entry env D k = Some e \<and> index_path cfg db \<in> unwritable s
              \<and> s1 = s \<and> r = Inl OSError)
         \<or> (\<exists>e. \<not> cache_hit env D (read_index_file cfg db s) k
              \<and> scanned_entry env D k = Some e \<and> index_path cfg db \<notin> unwritable s
              \<and> r = decoded_at env ah db k D e (AList.update k e (read_index_file cfg db s))
              \<and> s1 = s\<lparr>index_files := (index_files s)(index_path cfg db \<mapsto>
                          AList.update k e (read_index_file cfg db s))\<rparr>)"
proof (cases "cache_hit env D (read_index_file cfg db s) k")
  case True
  then obtain e where e: "map_of (read_index_file cfg db s) k = Some e" "entry_valid env D e"
    by (auto simp add: cache_hit_def split: option.splits)
  from partial_read_hit [OF assms(2) e, where ah = ah] assms(1) e show ?thesis by auto
next
  case False
  from partial_read_miss [OF assms(2) False, where ah = ah] assms(1)
  have "partial_read_scan cfg env db k ah D (read_index_file cfg db s) s = (r, s1)" by simp
  then show ?thesis
    using False by (auto simp add: partial_read_scan_outcome split: option.splits if_splits)
qed

lemma entry_valid_scanners:
  "entry_valid (env\<lparr>find_outermost_json_key_index := f, seek_index_through_value := g,
       detect_indentation_in_json_string := d\<rparr>) D e = entry_valid env D e"
  by (simp add: entry_valid_def)

lemma decoded_at_scanners:
  "decoded_at (env\<lparr>find_outermost_json_key_index := f, seek_index_through_value := g,
       detect_indentation_in_json_string := d\<rparr>) ah db k D e idx = decoded_at env ah db k D e idx"
  by (simp add: decoded_at_def)

lemma read_file_index_update:
  "read_file cfg env db ab (s\<lparr>index_files := x\<rparr>) = read_file cfg env db ab s"
  by (simp add: read_file_def db_paths_def)

lemma partial_read_started:
  assumes "partial_read cfg env db k ah s = (r, s1)"
      and "(\<exists>x. r = Inr x) \<or> s1 \<noteq> s"
  shows "\<exists>D. read_file cfg env db False s = Inr (Str D)"
proof (cases "read_file cfg env db False s")
  case (Inl e)
  with assms show ?thesis by (auto simp add: partial_read_def)
next
  case (Inr d)
  with assms show ?thesis by (cases d) (auto simp add: partial_read_def)
qed

lemma hit_any_scanner:
  assumes "read_file cfg env db False s = Inr (Str D)"
      and "map_of (read_index_file cfg db s) k = Some e"
      and "entry_valid env D e"
  shows "partial_read cfg (env\<lparr>find_outermost_json_key_index := f,
            seek_index_through_value := g, detect_indentation_in_json_string := d\<rparr>) db k ah s =
           (decoded_at env ah db k D e (read_index_file cfg db s), s)"
proof -
  let ?env = "env\<lparr>find_outermost_json_key_index := f,
            seek_index_through_value := g, detect_indentation_in_json_string := d\<rparr>"
  have 1: "read_file cfg ?env db False s = Inr (Str D)"
    using assms(1) by (simp only: read_file_scanners)
  have 2: "entry_valid ?env D e"
    using assms(3) by (simp only: entry_valid_scanners)
  from partial_read_hit [OF 1 assms(2) 2, where ah = ah] show ?thesis
    by (simp only: decoded_at_scanners)
qed

lemma after_read_consistent:
  assumes "partial_read cfg env db k ah s = (r, s1)"
      and "read_file cfg env db False s = Inr (Str D)"
      and "(\<exists>x. r = Inr x) \<or> s1 \<noteq> s"
  shows "read_file cfg env db False s1 = Inr (Str D)
         \<and> (\<exists>e. map_of (read_index_file cfg db s1) k = Some e \<and> entry_valid env D e
                \<and> r = decoded_at env ah db k D e (read_index_file cfg db s1))"
  using partial_read_cases [OF assms(1,2)] assms(2,3)
  by (elim disjE exE conjE)
     (auto simp add: read_file_index_update read_index_file_def update_conv'
        dest: scanned_entry_valid)

text \<open>
  Claim C6. After a \<^verbatim>\<open>partial_read\<close> that returned a result, a second
  \<^verbatim>\<open>partial_read\<close> of the same key returns the same result and leaves the file
  system, with it the index and the hash it holds for the key, as it is. The second
  call does not scan: it gives this result whatever the three scanners are.
\<close>

theorem partial_read_idempotent:
  assumes "partial_read cfg env db k ah s = (Inr r, s1)"
  shows "partial_read cfg (env\<lparr>find_outermost_json_key_index := f,
            seek_index_through_value := g, detect_indentation_in_json_string := d\<rparr>)
           db k ah s1 = (Inr r, s1)
         \<and> partial_read cfg env db k ah s1 = (Inr r, s1)
         \<and> map_of (read_index_file cfg db s1) k \<noteq> None"
proof -
  from partial_read_started [OF assms] obtain D where
    D: "read_file cfg env db False s = Inr (Str D)" by auto
  from after_read_consistent [OF assms D] obtain e where
    1: "read_file cfg env db False s1 = Inr (Str D)"
    and 2: "map_of (read_index_file cfg db s1) k = Some e"
    and 3: "entry_valid env D e"
    and 4: "Inr r = decoded_at env ah db k D e (read_index_file cfg db s1)"
    by auto
  from hit_any_scanner [OF 1 2 3, where ah = ah] partial_read_hit [OF 1 2 3, where ah = ah] 2 4
  show ?thesis by simp
qed

theorem partial_read_idempotent_witness:
  "fst (partial_read demo_cfg demo_env (str ''d'') (str ''a'') False demo_fs) = Inr (Value True)
   \<and> partial_read demo_cfg demo_env (str ''d'') (str ''a'') False
        (snd (partial_read demo_cfg demo_env (str ''d'') (str ''a'') False demo_fs))
       = (Inr (Value True),
          snd (partial_read demo_cfg demo_env (str ''d'') (str ''a'') False demo_fs))
   \<and> map_of (read_index_file demo_cfg (str ''d'')
               (snd (partial_read demo_cfg demo_env (str ''d'') (str ''a'') False demo_fs)))
        (str ''a'') \<noteq> None"
proof -
  let ?r = "partial_read demo_cfg demo_env (str ''d'') (str ''a'') False demo_fs"
  have 1: "fst ?r = Inr (Value True)" by (simp add: run_defs)
  then have 2: "?r = (Inr (Value True), snd ?r)" by (metis prod.collapse)
  from partial_read_idempotent [OF 2] 1 show ?thesis by blast
qed

text \<open>
  Claim C4. When the document can be read, the index holds no valid entry for the key
  and the scanner does not find the key token, \<^verbatim>\<open>partial_read\<close> fails with KeyError
  and the file system, the index files with it, is unchanged.
\<close>

theorem missing_key_keeps_index:
  assumes "read_file cfg env db False s = Inr (Str D)"
      and "\<not> cache_hit env D (read_index_file cfg db s) k"
      and "find_outermost_json_key_index env D (str ''\"'' @ k @ str ''\":'') = - 1"
  shows "partial_read cfg env db k ah s = (Inl KeyError, s)"
  using partial_read_miss [OF assms(1,2), where ah = ah] assms(3)
  by (simp add: partial_read_scan_def Let_def)

theorem missing_key_keeps_index_witness:
  "read_file demo_cfg demo_env (str ''d'') False demo_fs = Inr (Str (str ''{\"a\": true}''))
   \<and> \<not> cache_hit demo_env (str ''{\"a\": true}'')
          (read_index_file demo_cfg (str ''d'') demo_fs) (str ''b'')
   \<and> find_outermost_json_key_index demo_env (str ''{\"a\": true}'')
        (str ''\"'' @ str ''b'' @ str ''\":'') = - 1
   \<and> partial_read demo_cfg demo_env (str ''d'') (str ''b'') False demo_fs
       = (Inl KeyError, demo_fs)"
proof -
  have 1: "read_file demo_cfg demo_env (str ''d'') False demo_fs
             = Inr (Str (str ''{\"a\": true}''))"
    by (simp add: run_defs)
  have 2: "\<not> cache_hit demo_env (str ''{\"a\": true}'')
          (read_index_file demo_cfg (str ''d'') demo_fs) (str ''b'')"
    by (simp add: cache_hit_def run_defs)
  have 3: "find_outermost_json_key_index demo_env (str ''{\"a\": true}'')
        (str ''\"'' @ str ''b'' @ str ''\":'') = - 1"
    by (simp add: run_defs)
  from missing_key_keeps_index [OF 1 2 3] 1 2 3 show ?thesis by blast
qed

text \<open>
  Claim C2. When the index holds an entry for the key whose hash differs from the hash
  of the slice of the current text between its offsets, \<^verbatim>\<open>partial_read\<close> does what
  the scan of the whole text does: the mismatch itself raises nothing. When the scan
  locates the value, the index file can be written and the located slice decodes, the
  call returns the decoded slice that the scanners located and the index file holds
  the refreshed entry, with the hash of that slice.
\<close>

theorem stale_entry_rescanned:
  assumes "read_file cfg env db False s = Inr (Str D)"
      and "map_of (read_index_file cfg db s) k = Some (a, b, lvl, unit, h)"
      and "h \<noteq> sha256_hexdigest env (utf8_encode env (py_slice D a b))"
  shows "partial_read cfg env db k ah s =
           partial_read_scan cfg env db k ah D (read_index_file cfg db s) s
         \<and> (scanned_entry env D k = Some (a', b', lvl', unit', h')
              \<and> index_path cfg db \<notin> unwritable s
              \<and> orjson_loads env (py_slice D a' b') = Some v
            \<longrightarrow> h' = sha256_hexdigest env (utf8_encode env (py_slice D a' b'))
                \<and> partial_read cfg env db k False s =
                    (Inr (Value v),
                     s\<lparr>index_files := (index_files s)(index_path cfg db \<mapsto>
                         AList.update k (a', b', lvl', unit', h') (read_index_file cfg db s))\<rparr>))"
proof -
  have miss: "\<not> cache_hit env D (read_index_file cfg db s) k"
    using assms(2,3) by (simp add: cache_hit_def entry_valid_def)
  have 1: "partial_read cfg env db k x s =
           partial_read_scan cfg env db k x D (read_index_file cfg db s) s" for x
    by (rule partial_read_miss [OF assms(1) miss])
  show ?thesis
  proof (intro conjI impI)
    show "partial_read cfg env db k ah s =
           partial_read_scan cfg env db k ah D (read_index_file cfg db s) s" by (rule 1)
  next
    assume h: "scanned_entry env D k = Some (a', b', lvl', unit', h')
              \<and> index_path cfg db \<notin> unwritable s
              \<and> orjson_loads env (py_slice D a' b') = Some v"
    from h scanned_entry_valid [of env D k "(a', b', lvl', unit', h')"]
    show "h' = sha256_hexdigest env (utf8_encode env (py_slice D a' b'))"
      by (simp add: entry_valid_def)
    from h show "partial_read cfg env db k False s =
                    (Inr (Value v),
                     s\<lparr>index_files := (index_files s)(index_path cfg db \<mapsto>
                         AList.update k (a', b', lvl', unit', h') (read_index_file cfg db s))\<rparr>)"
      by (simp add: 1 partial_read_scan_outcome decoded_at_def)
  qed
qed

theorem stale_entry_rescanned_witness:
  "read_file demo_cfg demo_env (str ''d'') False demo_fs_stale
     = Inr (Str (str ''{\"a\": true}''))
   \<and> map_of (read_index_file demo_cfg (str ''d'') demo_fs_stale) (str ''a'')
       = Some (0, 3, 0, [], str ''old'')
   \<and> str ''old'' \<noteq> sha256_hexdigest demo_env
                      (utf8_encode demo_env (py_slice (str ''{\"a\": true}'') 0 3))
   \<and> scanned_entry demo_env (str ''{\"a\": true}'') (str ''a'')
       = Some (6, 10, 0, [], str ''true'')
   \<and> index_path demo_cfg (str ''d'') \<notin> unwritable demo_fs_stale
   \<and> orjson_loads demo_env (py_slice (str ''{\"a\": true}'') 6 10) = Some True
   \<and> partial_read demo_cfg demo_env (str ''d'') (str ''a'') False demo_fs_stale
       = (Inr (Value True),
          demo_fs_stale\<lparr>index_files := (index_files demo_fs_stale)
             (index_path demo_cfg (str ''d'') \<mapsto>
                AList.update (str ''a'') (6, 10, 0, [], str ''true'')
                  (read_index_file demo_cfg (str ''d'') demo_fs_stale))\<rparr>)"
proof -
  have 1: "read_file demo_cfg demo_env (str ''d'') False demo_fs_stale
     = Inr (Str (str ''{\"a\": true}''))"
    by (simp add: run_defs)
  have 2: "map_of (read_index_file demo_cfg (str ''d'') demo_fs_stale) (str ''a'')
       = Some (0, 3, 0, [], str ''old'')"
    by (simp add: run_defs)
  have 3: "str ''old'' \<noteq> sha256_hexdigest demo_env
                      (utf8_encode demo_env (py_slice (str ''{\"a\": true}'') 0 3))"
    by (simp add: run_defs)
  have 4: "scanned_entry demo_env (str ''{\"a\": true}'') (str ''a'')
       = Some (6, 10, 0, [], str ''true'')
   \<and> index_path demo_cfg (str ''d'') \<notin> unwritable demo_fs_stale
   \<and> orjson_loads demo_env (py_slice (str ''{\"a\": true}'') 6 10) = Some True"
    by (simp add: scanned_entry_def run_defs)
  from stale_entry_rescanned [OF 1 2 3, THEN conjunct2, rule_format, OF 4, THEN conjunct2]
    1 2 3 4
  show ?thesis by (simp only: simp_thms)
qed

subsection \<open>Partial writes\<close>

lemma write_dump_outcome:
  assumes "write_dump cfg env db dump s = (r, s')"
  shows "index_files s' = index_files s \<and> unwritable s' = unwritable s
         \<and> (if (if use_compression cfg then ddb_path_of cfg db else json_path_of cfg db)
                  \<in> unwritable s
             then r = Inl OSError
                  \<and> files s' (if use_compression cfg then ddb_path_of cfg db
                               else json_path_of cfg db)
                      = files s (if use_compression cfg then ddb_path_of cfg db
                                 else json_path_of cfg db)
             else r = Inr ())"
  using assms json_ddb_distinct [of cfg db]
  by (auto simp add: write_dump_def db_paths_def Let_def split: if_splits)





text \<open>
  Claim C10, as the code has it. The entries that the engine persists carry the hash
  of the slice, between their offsets, of the document text of the call that persists
  them. After a \<^verbatim>\<open>partial_read\<close> that returned a result or changed the file system,
  the index is consistent for the key. Whenever \<^verbatim>\<open>partial_write\<close> writes the index
  file, the entry of the key is valid for the text that the call composes, prefix, new
  value and suffix, which is the text of the document only once the call completes:
  then, that text surviving storage, the index is consistent for the key. And when the
  index is consistent for a key, \<^verbatim>\<open>partial_read\<close> takes the path of the index: it
  returns the decoding of that slice and leaves the file system as it is, whatever the
  three scanners are.
\<close>

theorem persisted_entries_consistent:
  "(partial_read cfg env db k ah s = (r, s1) \<and> ((\<exists>x. r = Inr x) \<or> s1 \<noteq> s)
      \<longrightarrow> index_consistent cfg env db k s1)
   \<and> (partial_write cfg env pf s = (r', s')
        \<and> partial_write_serialize cfg env (pd_value (pf_partial_dict pf)) = Inr dumped
        \<and> index_path cfg (pf_db_name pf) \<notin> unwritable s
      \<longrightarrow> (\<exists>e. map_of (read_index_file cfg (pf_db_name pf) s') (pd_key (pf_partial_dict pf))
                 = Some e
               \<and> entry_valid env
                    (pd_prefix (pf_partial_dict pf)
                     @ reindent (pf_indent_level pf) (pf_indent_with pf) dumped
                     @ pd_suffix (pf_partial_dict pf)) e))
   \<and> (partial_write cfg env pf s = (Inr (), s2)
        \<and> partial_write_serialize cfg env (pd_value (pf_partial_dict pf)) = Inr dumped
        \<and> stores_faithfully cfg env
             (pd_prefix (pf_partial_dict pf)
              @ reindent (pf_indent_level pf) (pf_indent_with pf) dumped
              @ pd_suffix (pf_partial_dict pf))
      \<longrightarrow> index_consistent cfg env (pf_db_name pf) (pd_key (pf_partial_dict pf)) s2)
   \<and> (index_consistent cfg env db k s
      \<longrightarrow> (\<exists>D e. read_file cfg env db False s = Inr (Str D)
                 \<and> map_of (read_index_file cfg db s) k = Some e
                 \<and> entry_valid env D e
                 \<and> partial_read cfg (env\<lparr>find_outermost_json_key_index := f,
                      seek_index_through_value := g,
                      detect_indentation_in_json_string := d\<rparr>) db k ah s =
                     (decoded_at env ah db k D e (read_index_file cfg db s), s)))"
proof (intro conjI impI)
  assume a: "partial_read cfg env db k ah s = (r, s1) \<and> ((\<exists>x. r = Inr x) \<or> s1 \<noteq> s)"
  then obtain D where D: "read_file cfg env db False s = Inr (Str D)"
    using partial_read_started [of cfg env db k ah s r s1] by auto
  from a after_read_consistent [OF _ D, of k ah r s1]
  show "index_consistent cfg env db k s1"
    by (auto simp add: index_consistent_def cache_hit_def)
next
  let ?new = "reindent (pf_indent_level pf) (pf_indent_with pf) dumped"
  let ?doc = "pd_prefix (pf_partial_dict pf) @ ?new @ pd_suffix (pf_partial_dict pf)"
  assume a: "partial_write cfg env pf s = (r', s')
        \<and> partial_write_serialize cfg env (pd_value (pf_partial_dict pf)) = Inr dumped
        \<and> index_path cfg (pf_db_name pf) \<notin> unwritable s"
  then obtain dump s1 where
    s1: "s1 = s\<lparr>index_files := (index_files s)(index_path cfg (pf_db_name pf) \<mapsto>
            AList.update (pd_key (pf_partial_dict pf))
              (int (length (pd_prefix (pf_partial_dict pf))),
               int (length (pd_prefix (pf_partial_dict pf))) + int (length ?new),
               pf_indent_level pf, pf_indent_with pf,
               sha256_hexdigest env (utf8_encode env ?new))
              (pf_index_data pf))\<rparr>"
    and w: "write_dump cfg env (pf_db_name pf) dump s1 = (r', s')"
    by (auto simp add: partial_write_def write_index_file_def Let_def)
  from write_dump_outcome [OF w] s1
  have "map_of (read_index_file cfg (pf_db_name pf) s') (pd_key (pf_partial_dict pf)) =
          Some (int (length (pd_prefix (pf_partial_dict pf))),
               int (length (pd_prefix (pf_partial_dict pf))) + int (length ?new),
               pf_indent_level pf, pf_indent_with pf,
               sha256_hexdigest env (utf8_encode env ?new))"
    by (simp add: read_index_file_def update_conv')
  moreover have "entry_valid env ?doc
         (int (length (pd_prefix (pf_partial_dict pf))),
               int (length (pd_prefix (pf_partial_dict pf))) + int (length ?new),
               pf_indent_level pf, pf_indent_with pf,
               sha256_hexdigest env (utf8_encode env ?new))"
    by (simp add: entry_valid_def slice_of_middle)
  ultimately show "\<exists>e. map_of (read_index_file cfg (pf_db_name pf) s')
                      (pd_key (pf_partial_dict pf)) = Some e
               \<and> entry_valid env ?doc e"
    by blast
next
  let ?new = "reindent (pf_indent_level pf) (pf_indent_with pf) dumped"
  let ?doc = "pd_prefix (pf_partial_dict pf) @ ?new @ pd_suffix (pf_partial_dict pf)"
  assume a: "partial_write cfg env pf s = (Inr (), s2)
        \<and> partial_write_serialize cfg env (pd_value (pf_partial_dict pf)) = Inr dumped
        \<and> stores_faithfully cfg env ?doc"
  then have w: "partial_write cfg env pf s = (Inr (), s2)" by simp
  from w a obtain s1 where
    wd: "write_dump cfg env (pf_db_name pf) (Str ?doc) s1 = (Inr (), s2)"
    by (elim partial_write_success) auto
  from write_then_read [OF wd] a
  have rd: "read_file cfg env (pf_db_name pf) False s2 = Inr (Str ?doc)" by simp
  from a index_entry_after_write [OF w, of dumped] rd
  show "index_consistent cfg env (pf_db_name pf) (pd_key (pf_partial_dict pf)) s2"
    by (simp add: index_consistent_def cache_hit_def entry_valid_def slice_of_middle)
next
  assume "index_consistent cfg env db k s"
  then obtain D e where
    1: "read_file cfg env db False s = Inr (Str D)"
    and 2: "map_of (read_index_file cfg db s) k = Some e"
    and 3: "entry_valid env D e"
    by (auto simp add: index_consistent_def cache_hit_def
        split: sum.splits py_data.splits option.splits)
  from hit_any_scanner [OF 1 2 3, where ah = ah] 1 2 3
  show "\<exists>D e. read_file cfg env db False s = Inr (Str D)
                 \<and> map_of (read_index_file cfg db s) k = Some e
                 \<and> entry_valid env D e
                 \<and> partial_read cfg (env\<lparr>find_outermost_json_key_index := f,
                      seek_index_through_value := g,
                      detect_indentation_in_json_string := d\<rparr>) db k ah s =
                     (decoded_at env ah db k D e (read_index_file cfg db s), s)"
    by blast
qed

theorem persisted_entries_consistent_witness:
  "fst (partial_read demo_cfg demo_env (str ''d'') (str ''a'') False demo_fs) = Inr (Value True)
   \<and> index_consistent demo_cfg demo_env (str ''d'') (str ''a'')
        (snd (partial_read demo_cfg demo_env (str ''d'') (str ''a'') False demo_fs))
   \<and> fst (partial_write demo_cfg demo_env demo_update demo_fs_readonly) = Inl OSError
   \<and> map_of (read_index_file demo_cfg (str ''d'')
               (snd (partial_write demo_cfg demo_env demo_update demo_fs_readonly)))
        (str ''a'') = Some (6, 11, 0, [], str ''false'')
   \<and> entry_valid demo_env (str ''{\"a\": false}'') (6, 11, 0, [], str ''false'')
   \<and> fst (partial_write demo_cfg demo_env demo_update demo_fs) = Inr ()
   \<and> stores_faithfully demo_cfg demo_env (str ''{\"a\": false}'')
   \<and> index_consistent demo_cfg demo_env (str ''d'') (str ''a'')
        (snd (partial_write demo_cfg demo_env demo_update demo_fs))
   \<and> partial_read demo_cfg
        (demo_env\<lparr>find_outermost_json_key_index := (\<lambda>data k. - 1),
                   seek_index_through_value := (\<lambda>data i. 0),
                   detect_indentation_in_json_string := (\<lambda>data i. (0, []))\<rparr>)
        (str ''d'') (str ''a'') False
        (snd (partial_write demo_cfg demo_env demo_update demo_fs))
       = (Inr (Value False), snd (partial_write demo_cfg demo_env demo_update demo_fs))"
proof -
  let ?r = "partial_read demo_cfg demo_env (str ''d'') (str ''a'') False demo_fs"
  let ?w = "partial_write demo_cfg demo_env demo_update demo_fs"
  have r1: "fst ?r = Inr (Value True)" by (simp add: run_defs)
  then have r2: "?r = (Inr (Value True), snd ?r)" by (metis prod.collapse)
  have A: "index_consistent demo_cfg demo_env (str ''d'') (str ''a'') (snd ?r)"
    by (rule persisted_entries_consistent [THEN conjunct1, rule_format]) (use r2 in blast)
  have w1: "fst ?w = Inr ()" by (simp add: run_defs)
  then have w2: "?w = (Inr (), snd ?w)" by (metis prod.collapse)
  have ser: "partial_write_serialize demo_cfg demo_env (pd_value (pf_partial_dict demo_update))
               = Inr (str ''false'')"
    by (simp add: run_defs)
  have doc: "pd_prefix (pf_partial_dict demo_update)
              @ reindent (pf_indent_level demo_update) (pf_indent_with demo_update)
                  (str ''false'')
              @ pd_suffix (pf_partial_dict demo_update) = str ''{\"a\": false}''"
    by (simp add: run_defs)
  have sf: "stores_faithfully demo_cfg demo_env (str ''{\"a\": false}'')"
    by (simp add: stores_faithfully_def run_defs)
  have names: "pf_db_name demo_update = str ''d''" "pd_key (pf_partial_dict demo_update) = str ''a''"
    by (simp_all add: demo_update_def demo_handle_def)
  have hyp: "partial_write demo_cfg demo_env demo_update demo_fs = (Inr (), snd ?w)
      \<and> partial_write_serialize demo_cfg demo_env (pd_value (pf_partial_dict demo_update))
          = Inr (str ''false'')
      \<and> stores_faithfully demo_cfg demo_env
          (pd_prefix (pf_partial_dict demo_update)
           @ reindent (pf_indent_level demo_update) (pf_indent_with demo_update)
               (str ''false'')
           @ pd_suffix (pf_partial_dict demo_update))"
    using w2 ser sf by (simp only: doc simp_thms)
  have "index_consistent demo_cfg demo_env (pf_db_name demo_update)
          (pd_key (pf_partial_dict demo_update)) (snd ?w)"
    by (rule persisted_entries_consistent
          [THEN conjunct2, THEN conjunct2, THEN conjunct1, rule_format, OF hyp])
  then have B: "index_consistent demo_cfg demo_env (str ''d'') (str ''a'') (snd ?w)"
    by (simp only: names)
  let ?env = "demo_env\<lparr>find_outermost_json_key_index := (\<lambda>data k. - 1),
                   seek_index_through_value := (\<lambda>data i. 0),
                   detect_indentation_in_json_string := (\<lambda>data i. (0, []))\<rparr>"
  from persisted_entries_consistent
         [THEN conjunct2, THEN conjunct2, THEN conjunct2, rule_format, OF B]
  obtain D e where
    c1: "read_file demo_cfg demo_env (str ''d'') False (snd ?w) = Inr (Str D)"
    and c2: "map_of (read_index_file demo_cfg (str ''d'') (snd ?w)) (str ''a'') = Some e"
    and c3: "partial_read demo_cfg ?env (str ''d'') (str ''a'') False (snd ?w) =
               (decoded_at demo_env False (str ''d'') (str ''a'') D e
                  (read_index_file demo_cfg (str ''d'') (snd ?w)), snd ?w)"
    by blast
  have d1: "read_file demo_cfg demo_env (str ''d'') False (snd ?w)
              = Inr (Str (str ''{\"a\": false}''))"
    by (simp add: run_defs)
  have d2: "map_of (read_index_file demo_cfg (str ''d'') (snd ?w)) (str ''a'')
              = Some (6, 11, 0, [], str ''false'')"
    by (simp add: run_defs)
  from c1 d1 have D: "D = str ''{\"a\": false}''" by simp
  from c2 d2 have e: "e = (6, 11, 0, [], str ''false'')" by simp
  have "decoded_at demo_env False (str ''d'') (str ''a'') (str ''{\"a\": false}'')
          (6, 11, 0, [], str ''false'') (read_index_file demo_cfg (str ''d'') (snd ?w))
        = Inr (Value False)"
    by (simp add: decoded_at_def py_slice_def clamp_index_def str_def demo_env_def)
  with c3 D e have C: "partial_read demo_cfg ?env (str ''d'') (str ''a'') False (snd ?w)
                         = (Inr (Value False), snd ?w)"
    by simp
  let ?f = "partial_write demo_cfg demo_env demo_update demo_fs_readonly"
  have f1: "fst ?f = Inl OSError" by (simp add: run_defs)
  have hyp': "?f = (fst ?f, snd ?f)
      \<and> partial_write_serialize demo_cfg demo_env (pd_value (pf_partial_dict demo_update))
          = Inr (str ''false'')
      \<and> index_path demo_cfg (pf_db_name demo_update) \<notin> unwritable demo_fs_readonly"
    using ser by (simp add: run_defs)
  from persisted_entries_consistent [THEN conjunct2, THEN conjunct1, rule_format, OF hyp']
  obtain e' where
    e1: "map_of (read_index_file demo_cfg (pf_db_name demo_update) (snd ?f))
           (pd_key (pf_partial_dict demo_update)) = Some e'"
    and e2: "entry_valid demo_env
               (pd_prefix (pf_partial_dict demo_update)
                @ reindent (pf_indent_level demo_update) (pf_indent_with demo_update)
                    (str ''false'')
                @ pd_suffix (pf_partial_dict demo_update)) e'"
    by blast
  have e3: "map_of (read_index_file demo_cfg (str ''d'') (snd ?f)) (str ''a'')
              = Some (6, 11, 0, [], str ''false'')"
    by (simp add: run_defs)
  from e1 e3 have "e' = (6, 11, 0, [], str ''false'')" by (simp add: names)
  with e2 have E: "entry_valid demo_env (str ''{\"a\": false}'') (6, 11, 0, [], str ''false'')"
    by (simp only: doc)
  from r1 A f1 e3 E w1 sf B C show ?thesis by (simp only: simp_thms)
qed

text \<open>
  The claim as stated, that every entry persisted by \<^verbatim>\<open>partial_write\<close> has the hash
  of the slice of the current document and is followed by a read from the index, does
  not hold. \<^verbatim>\<open>partial_write\<close> persists the entry before it writes the document: with
  a document file that cannot be opened for writing the call fails, the entry of the
  new value \<^verbatim>\<open>false\<close> at 6 to 11 is in the index file and the document is still
  \<^verbatim>\<open>{"a": true}\<close>, whose slice at 6 to 11 has another hash. The index is not
  consistent, and the following \<^verbatim>\<open>partial_read\<close> scans: it writes the entry at 6 to
  10 anew, and with a scanner that finds nothing it raises KeyError.
\<close>

theorem entry_without_document_counterexample:
  "fst (partial_write demo_cfg demo_env demo_update demo_fs_readonly) = Inl OSError
   \<and> map_of (read_index_file demo_cfg (str ''d'')
               (snd (partial_write demo_cfg demo_env demo_update demo_fs_readonly)))
        (str ''a'') = Some (6, 11, 0, [], str ''false'')
   \<and> read_file demo_cfg demo_env (str ''d'') False
        (snd (partial_write demo_cfg demo_env demo_update demo_fs_readonly))
       = Inr (Str (str ''{\"a\": true}''))
   \<and> sha256_hexdigest demo_env (utf8_encode demo_env (py_slice (str ''{\"a\": true}'') 6 11))
       = str ''true}''
   \<and> \<not> index_consistent demo_cfg demo_env (str ''d'') (str ''a'')
          (snd (partial_write demo_cfg demo_env demo_update demo_fs_readonly))
   \<and> map_of (read_index_file demo_cfg (str ''d'')
               (snd (partial_read demo_cfg demo_env (str ''d'') (str ''a'') False
                      (snd (partial_write demo_cfg demo_env demo_update demo_fs_readonly)))))
        (str ''a'') = Some (6, 10, 0, [], str ''true'')
   \<and> fst (partial_read demo_cfg
            (demo_env\<lparr>find_outermost_json_key_index := (\<lambda>data k. - 1)\<rparr>)
            (str ''d'') (str ''a'') False
            (snd (partial_write demo_cfg demo_env demo_update demo_fs_readonly)))
       = Inl KeyError"
  by (simp add: index_consistent_def cache_hit_def entry_valid_def run_defs)

subsection \<open>Reading a handle and writing it back\<close>

lemma decoded_handle:
  assumes "decoded_at env True db k D (a, b, lvl, unit, hv) idx = Inr (Handle h)"
  shows "orjson_loads env (py_slice D a b) = Some (pd_value (pf_partial_dict h))"
    and "pf_db_name h = db"
    and "pd_prefix (pf_partial_dict h) = py_slice_to D a"
    and "pd_suffix (pf_partial_dict h) = py_slice_from D b"
    and "pd_key (pf_partial_dict h) = k"
    and "pf_indent_level h = lvl"
    and "pf_indent_with h = unit"
    and "pf_index_data h = idx"
  using assms by (auto simp add: decoded_at_def handle_at_def split: option.splits)

lemma read_span:
  assumes "read_file cfg env db False s = Inr (Str D)"
      and "partial_read cfg env db k True s = (Inr (Handle h), s1)"
  shows "\<exists>a b lvl unit hv idx.
           ((map_of (read_index_file cfg db s) k = Some (a, b, lvl, unit, hv)
               \<and> cache_hit env D (read_index_file cfg db s) k)
            \<or> (\<not> cache_hit env D (read_index_file cfg db s) k
               \<and> scanned_entry env D k = Some (a, b, lvl, unit, hv)))
           \<and> decoded_at env True db k D (a, b, lvl, unit, hv) idx = Inr (Handle h)"
  using partial_read_cases [OF assms(2,1)]
  apply (elim disjE exE conjE)
  subgoal for e by (cases e) (auto simp add: cache_hit_def)
  subgoal by auto
  subgoal by auto
  subgoal by auto
  subgoal for e by (cases e) auto
  done

text \<open>
  Claim C1, as the code has it. Let \<^verbatim>\<open>partial_read\<close> with \<^verbatim>\<open>as_handle\<close> return a
  handle for a key of a document with text \<open>D\<close>, and let \<^verbatim>\<open>partial_write\<close> complete on
  that handle with its value replaced by \<open>v\<close>. Then there is a span \<open>[a, b)\<close>, the one
  of the index entry of the key when the hash of that entry is the hash of \<open>D[a:b]\<close>,
  and otherwise the one the scan located, such that the value of the handle is the
  decoding of \<open>D[a:b]\<close>, the prefix and the suffix of the handle are \<open>D[:a]\<close> and
  \<open>D[b:]\<close>, and the document written is \<open>D[:a]\<close>, the serialized and re-indented \<open>v\<close>,
  and \<open>D[b:]\<close>, in the configured representation and no other; read back, it is that
  text when the text survives storage. For \<open>0 \<le> a \<le> b\<close> the three slices \<open>D[:a]\<close>,
  \<open>D[a:b]\<close>, \<open>D[b:]\<close> make up \<open>D\<close>, so the new text differs from \<open>D\<close> inside the span
  only.
\<close>

theorem partial_round_trip:
  assumes D: "read_file cfg env db False s = Inr (Str D)"
      and R: "partial_read cfg env db k True s = (Inr (Handle h), s1)"
      and W: "partial_write cfg env (h\<lparr>pf_partial_dict := (pf_partial_dict h)\<lparr>pd_value := v\<rparr>\<rparr>) s1
                = (Inr (), s2)"
  shows "\<exists>a b lvl unit hv dumped.
           ((map_of (read_index_file cfg db s) k = Some (a, b, lvl, unit, hv)
               \<and> cache_hit env D (read_index_file cfg db s) k)
            \<or> (\<not> cache_hit env D (read_index_file cfg db s) k
               \<and> scanned_entry env D k = Some (a, b, lvl, unit, hv)))
           \<and> orjson_loads env (py_slice D a b) = Some (pd_value (pf_partial_dict h))
           \<and> pd_prefix (pf_partial_dict h) = py_slice_to D a
           \<and> pd_suffix (pf_partial_dict h) = py_slice_from D b
           \<and> partial_write_serialize cfg env v = Inr dumped
           \<and> files s2 (if use_compression cfg then ddb_path_of cfg db else json_path_of cfg db) =
               Some (if use_compression cfg
                     then zlib_compress env
                            (utf8_encode env
                               (py_slice_to D a @ reindent lvl unit dumped @ py_slice_from D b))
                     else text_write env
                            (py_slice_to D a @ reindent lvl unit dumped @ py_slice_from D b))
           \<and> files s2 (if use_compression cfg then json_path_of cfg db else ddb_path_of cfg db)
               = None
           \<and> (stores_faithfully cfg env
                 (py_slice_to D a @ reindent lvl unit dumped @ py_slice_from D b)
               \<longrightarrow> read_file cfg env db False s2 =
                     Inr (Str (py_slice_to D a @ reindent lvl unit dumped @ py_slice_from D b)))
           \<and> (0 \<le> a \<and> a \<le> b
               \<longrightarrow> py_slice_to D a @ py_slice D a b @ py_slice_from D b = D)"
proof -
  from read_span [OF D R] obtain a b lvl unit hv idx where
    span: "(map_of (read_index_file cfg db s) k = Some (a, b, lvl, unit, hv)
               \<and> cache_hit env D (read_index_file cfg db s) k)
            \<or> (\<not> cache_hit env D (read_index_file cfg db s) k
               \<and> scanned_entry env D k = Some (a, b, lvl, unit, hv))"
    and dec: "decoded_at env True db k D (a, b, lvl, unit, hv) idx = Inr (Handle h)"
    by blast
  note hd = decoded_handle [OF dec]
  let ?h = "h\<lparr>pf_partial_dict := (pf_partial_dict h)\<lparr>pd_value := v\<rparr>\<rparr>"
  from W obtain dumped s1' where
    ser: "partial_write_serialize cfg env (pd_value (pf_partial_dict ?h)) = Inr dumped"
    and wd: "write_dump cfg env (pf_db_name ?h)
       (Str (pd_prefix (pf_partial_dict ?h)
             @ reindent (pf_indent_level ?h) (pf_indent_with ?h) dumped
             @ pd_suffix (pf_partial_dict ?h))) s1' = (Inr (), s2)"
    by (elim partial_write_success) blast
  let ?doc = "py_slice_to D a @ reindent lvl unit dumped @ py_slice_from D b"
  from wd hd have wd': "write_dump cfg env db (Str ?doc) s1' = (Inr (), s2)" by simp
  from ser have ser': "partial_write_serialize cfg env v = Inr dumped" by simp
  have f1: "files s2 (if use_compression cfg then ddb_path_of cfg db else json_path_of cfg db) =
               Some (if use_compression cfg
                     then zlib_compress env (utf8_encode env ?doc)
                     else text_write env ?doc)"
    using write_dump_files(2) [OF wd'] by simp
  have f2: "files s2 (if use_compression cfg then json_path_of cfg db else ddb_path_of cfg db)
               = None"
    using write_dump_files(1) [OF wd'] .
  have f3: "stores_faithfully cfg env ?doc
               \<longrightarrow> read_file cfg env db False s2 = Inr (Str ?doc)"
    using write_then_read [OF wd'] by blast
  have f4: "0 \<le> a \<and> a \<le> b \<longrightarrow> py_slice_to D a @ py_slice D a b @ py_slice_from D b = D"
    using slices_partition [of a b D] by blast
  from span hd(1,3,4) ser' f1 f2 f3 f4 show ?thesis by blast
qed

theorem partial_round_trip_witness:
  "read_file demo_cfg demo_env (str ''d'') False demo_fs = Inr (Str (str ''{\"a\": true}''))
   \<and> fst (partial_read demo_cfg demo_env (str ''d'') (str ''a'') True demo_fs)
       = Inr (Handle demo_handle)
   \<and> fst (partial_write demo_cfg demo_env demo_update
            (snd (partial_read demo_cfg demo_env (str ''d'') (str ''a'') True demo_fs)))
       = Inr ()
   \<and> read_file demo_cfg demo_env (str ''d'') False
        (snd (partial_write demo_cfg demo_env demo_update
               (snd (partial_read demo_cfg demo_env (str ''d'') (str ''a'') True demo_fs))))
       = Inr (Str (str ''{\"a\": false}''))
   \<and> py_slice_to (str ''{\"a\": true}'') 6 @ py_slice (str ''{\"a\": true}'') 6 10
         @ py_slice_from (str ''{\"a\": true}'') 10 = str ''{\"a\": true}''"
proof -
  let ?D = "str ''{\"a\": true}''"
  let ?r = "partial_read demo_cfg demo_env (str ''d'') (str ''a'') True demo_fs"
  let ?w = "partial_write demo_cfg demo_env demo_update (snd ?r)"
  have D: "read_file demo_cfg demo_env (str ''d'') False demo_fs = Inr (Str ?D)"
    by (simp add: run_defs)
  have r1: "fst ?r = Inr (Handle demo_handle)" by (simp add: run_defs)
  then have R: "?r = (Inr (Handle demo_handle), snd ?r)" by (metis prod.collapse)
  have w1: "fst ?w = Inr ()" by (simp add: run_defs)
  then have "?w = (Inr (), snd ?w)" by (metis prod.collapse)
  then have W: "partial_write demo_cfg demo_env
                  (demo_handle\<lparr>pf_partial_dict := (pf_partial_dict demo_handle)\<lparr>pd_value := False\<rparr>\<rparr>)
                  (snd ?r) = (Inr (), snd ?w)"
    by (simp only: demo_update_def)
  from partial_round_trip [OF D R W] obtain a b lvl unit hv dumped where
    span: "(map_of (read_index_file demo_cfg (str ''d'') demo_fs) (str ''a'')
              = Some (a, b, lvl, unit, hv)
            \<and> cache_hit demo_env ?D (read_index_file demo_cfg (str ''d'') demo_fs) (str ''a''))
           \<or> (\<not> cache_hit demo_env ?D (read_index_file demo_cfg (str ''d'') demo_fs) (str ''a'')
              \<and> scanned_entry demo_env ?D (str ''a'') = Some (a, b, lvl, unit, hv))"
    and ser: "partial_write_serialize demo_cfg demo_env False = Inr dumped"
    and part: "0 \<le> a \<and> a \<le> b
                 \<longrightarrow> py_slice_to ?D a @ py_slice ?D a b @ py_slice_from ?D b = ?D"
    and rb: "stores_faithfully demo_cfg demo_env
                 (py_slice_to ?D a @ reindent lvl unit dumped @ py_slice_from ?D b)
               \<longrightarrow> read_file demo_cfg demo_env (str ''d'') False (snd ?w) =
                     Inr (Str (py_slice_to ?D a @ reindent lvl unit dumped @ py_slice_from ?D b))"
    by blast
  have "\<not> cache_hit demo_env ?D (read_index_file demo_cfg (str ''d'') demo_fs) (str ''a'')"
    by (simp add: cache_hit_def run_defs)
  with span have "scanned_entry demo_env ?D (str ''a'') = Some (a, b, lvl, unit, hv)" by blast
  moreover have "scanned_entry demo_env ?D (str ''a'') = Some (6, 10, 0, [], str ''true'')"
    by (simp add: scanned_entry_def run_defs)
  ultimately have ab: "a = 6" "b = 10" "lvl = 0" "unit = []" by simp_all
  have "partial_write_serialize demo_cfg demo_env False = Inr (str ''false'')"
    by (simp add: run_defs)
  with ser have dumped: "dumped = str ''false''" by simp
  have doc: "py_slice_to ?D 6 @ reindent 0 [] (str ''false'') @ py_slice_from ?D 10
               = str ''{\"a\": false}''"
    by (simp add: run_defs)
  have sf: "stores_faithfully demo_cfg demo_env (str ''{\"a\": false}'')"
    by (simp add: stores_faithfully_def run_defs)
  from rb sf have "read_file demo_cfg demo_env (str ''d'') False (snd ?w)
                       = Inr (Str (str ''{\"a\": false}''))"
    by (simp only: ab dumped doc simp_thms)
  moreover from part
  have "py_slice_to ?D 6 @ py_slice ?D 6 10 @ py_slice_from ?D 10 = ?D"
    by (simp only: ab) simp
  ultimately show ?thesis using D r1 w1 by (simp only: simp_thms)
qed

text \<open>
  The claim as the spec has it, that the span replaced is always the value of the key,
  does not hold. An index entry is trusted when the text at its offsets has its hash,
  wherever the key is now. After a partial read of \<^verbatim>\<open>b\<close> in \<^verbatim>\<open>{"b": true}\<close> and a
  write of the whole document \<^verbatim>\<open>{"a": true, "b": false}\<close>, the entry of \<^verbatim>\<open>b\<close> still
  fits, on the value of \<^verbatim>\<open>a\<close>: the scan locates the value of \<^verbatim>\<open>b\<close> at 17 to 22, the
  handle has the prefix that ends at 6, and writing \<^verbatim>\<open>false\<close> through it changes the
  value of \<^verbatim>\<open>a\<close>, where replacing the value of \<^verbatim>\<open>b\<close> would have left the text as it
  was.
\<close>

theorem stale_span_counterexample:
  "fst (partial_read demo_cfg demo_env (str ''d'') (str ''b'') False demo_fs_b)
     = Inr (Value True)
   \<and> read_file demo_cfg demo_env (str ''d'') False demo_fs_moved
       = Inr (Str (str ''{\"a\": true, \"b\": false}''))
   \<and> scanned_entry demo_env (str ''{\"a\": true, \"b\": false}'') (str ''b'')
       = Some (17, 22, 0, [], str ''false'')
   \<and> py_slice_to (str ''{\"a\": true, \"b\": false}'') 17 @ str ''false''
         @ py_slice_from (str ''{\"a\": true, \"b\": false}'') 22
       = str ''{\"a\": true, \"b\": false}''
   \<and> fst (partial_read demo_cfg demo_env (str ''d'') (str ''b'') True demo_fs_moved)
       = Inr (Handle demo_handle_b)
   \<and> fst (partial_write demo_cfg demo_env
            (demo_handle_b\<lparr>pf_partial_dict := (pf_partial_dict demo_handle_b)\<lparr>pd_value := False\<rparr>\<rparr>)
            (snd (partial_read demo_cfg demo_env (str ''d'') (str ''b'') True demo_fs_moved)))
       = Inr ()
   \<and> read_file demo_cfg demo_env (str ''d'') False
        (snd (partial_write demo_cfg demo_env
               (demo_handle_b\<lparr>pf_partial_dict := (pf_partial_dict demo_handle_b)\<lparr>pd_value := False\<rparr>\<rparr>)
               (snd (partial_read demo_cfg demo_env (str ''d'') (str ''b'') True
                       demo_fs_moved))))
       = Inr (Str (str ''{\"a\": false, \"b\": false}''))
   \<and> str ''{\"a\": false, \"b\": false}''
       \<noteq> py_slice_to (str ''{\"a\": true, \"b\": false}'') 17 @ str ''false''
           @ py_slice_from (str ''{\"a\": true, \"b\": false}'') 22"
  by code_simp

end
